theory Spec2Isabelle
  imports Main "HOL-Library.Sublist" "HOL-Library.AList" "HOL-Library.Multiset"
begin

section \<open>Data model\<close>

text \<open>
  Go's \<open>error\<close> values, as far as the dispatcher looks at them: a \<open>BadInputError\<close> with its
  message, a plain error (\<open>errors.New\<close>) and an error wrapping another one
  (\<open>fmt.Errorf\<close> with \<open>%w\<close>). A nil error is \<open>None\<close> of \<open>error option\<close>.
\<close>

datatype error =
    BadInputError string
  | ErrorString string
  | WrapError string error

text \<open>\<open>err.Error()\<close>: the message of the outermost error.\<close>

fun Error :: "error \<Rightarrow> string" where
  "Error (BadInputError msg) = msg"
| "Error (ErrorString msg) = msg"
| "Error (WrapError msg e) = msg"

text \<open>\<open>errors.As(err, &BadInputError{})\<close>: some error of the chain is a \<open>BadInputError\<close>.\<close>

fun errors_As_BadInputError :: "error \<Rightarrow> bool" where
  "errors_As_BadInputError (BadInputError msg) = True"
| "errors_As_BadInputError (ErrorString msg) = False"
| "errors_As_BadInputError (WrapError msg e) = errors_As_BadInputError e"

text \<open>
  A run-time panic ends the function where it stands; what it did before stays done.
\<close>

datatype panic = NilPointerDereference | TypeAssertionFailed

datatype 'a completion = Returned 'a | Panicked panic

datatype NormalisedURLPath = NormalisedURLPath string

datatype NormalisedURLDomain = NormalisedURLDomain string

record NormalisedAppinfo =
  AppName :: string
  APIDomain :: NormalisedURLDomain
  WebsiteDomain :: NormalisedURLDomain
  APIBasePath :: NormalisedURLPath
  APIGatewayPath :: NormalisedURLPath

text \<open>The parts of \<open>*http.Request\<close> that the dispatcher reads.\<close>

record request =
  URL_Path :: string
  Method :: string
  Header :: "(string \<times> string) list"

text \<open>
  Everything a callback can change (the response writer, the recipes' own state, the
  network) is the world \<open>'w\<close>, passed in and returned. A \<open>http.Handler\<close> is its
  \<open>ServeHTTP\<close>.
\<close>

type_synonym 'w Handler = "request \<Rightarrow> 'w \<Rightarrow> 'w"

text \<open>
  \<open>RecipeModule\<close> is a struct of functions. A Go function with two results returns the
  pair; \<open>HandleError\<close> may be nil.
\<close>

record 'w RecipeModule =
  GetRecipeID :: string
  ReturnAPIIdIfCanHandleRequest ::
    "NormalisedURLPath \<Rightarrow> string \<Rightarrow> 'w \<Rightarrow> (string option \<times> error option) \<times> 'w"
  HandleAPIRequest ::
    "string \<Rightarrow> request \<Rightarrow> 'w Handler \<Rightarrow> NormalisedURLPath \<Rightarrow> string \<Rightarrow> 'w \<Rightarrow> error option \<times> 'w"
  GetAllCORSHeaders :: "string list"
  HandleError :: "(error \<Rightarrow> request \<Rightarrow> 'w \<Rightarrow> (bool \<times> error option) \<times> 'w) option"

record 'w superTokens =
  AppInfo :: NormalisedAppinfo
  RecipeModules :: "'w RecipeModule list"
  OnGeneralError :: "error \<Rightarrow> request \<Rightarrow> 'w \<Rightarrow> 'w"

text \<open>
  Functions and constants of package \<open>supertokens\<close> that \<open>supertokens.go\<close> uses and other
  files define. They are parameters: every theorem holds for each implementation.
  \<open>NewNormalisedURLPath\<close> returns a pointer and an error, as in Go.
\<close>

record 'w pkg =
  NewNormalisedURLPath :: "string \<Rightarrow> NormalisedURLPath option \<times> error option"
  AppendPath :: "NormalisedURLPath \<Rightarrow> NormalisedURLPath \<Rightarrow> NormalisedURLPath"
  GetAsStringDangerous :: "NormalisedURLPath \<Rightarrow> string"
  getRIDFromRequest :: "request \<Rightarrow> string"
  SendNon200Response :: "string \<Rightarrow> nat \<Rightarrow> 'w \<Rightarrow> error option \<times> 'w"
  HeaderRID :: string
  HeaderFDI :: string

text \<open>
  The calls the dispatcher makes, in the order it makes them. A recipe module is named
  by its position in \<open>RecipeModules\<close> (recipe ids need not be unique).
\<close>

datatype event =
    Ev_theirHandler request
  | Ev_ReturnAPIIdIfCanHandleRequest nat NormalisedURLPath string
  | Ev_HandleAPIRequest nat string NormalisedURLPath string
  | Ev_HandleError nat error
  | Ev_SendNon200Response string nat
  | Ev_OnGeneralError error

section \<open>The error-handling chain\<close>

definition callOnGeneralError ::
  "'w superTokens \<Rightarrow> error \<Rightarrow> request \<Rightarrow> 'w \<Rightarrow> event list \<times> 'w" where
  "callOnGeneralError s err req w = ([Ev_OnGeneralError err], OnGeneralError s err req w)"

text \<open>
  The loop of \<open>errorHandler\<close> over \<open>s.RecipeModules\<close>, from position \<open>i\<close>. The \<open>err\<close> a
  hook returns is a new variable of the loop body: every hook is given the error
  \<open>errorHandler\<close> was called with, and so is \<open>OnGeneralError\<close> after the loop.
\<close>

fun errorHandler_loop ::
  "'w superTokens \<Rightarrow> error \<Rightarrow> request \<Rightarrow> nat \<Rightarrow> 'w RecipeModule list \<Rightarrow> 'w \<Rightarrow> event list \<times> 'w" where
  "errorHandler_loop s err req i [] w = callOnGeneralError s err req w"
| "errorHandler_loop s err req i (recipe # rest) w =
     (case HandleError recipe of
        None \<Rightarrow> errorHandler_loop s err req (Suc i) rest w
      | Some hook \<Rightarrow>
          (case hook err req w of
             ((handled, Some err2), w') \<Rightarrow>
               (case callOnGeneralError s err2 req w' of
                  (evs, w'') \<Rightarrow> (Ev_HandleError i err # evs, w''))
           | ((handled, None), w') \<Rightarrow>
               if handled then ([Ev_HandleError i err], w')
               else (case errorHandler_loop s err req (Suc i) rest w' of
                       (evs, w'') \<Rightarrow> (Ev_HandleError i err # evs, w''))))"

definition errorHandler ::
  "'w pkg \<Rightarrow> 'w superTokens \<Rightarrow> error \<Rightarrow> request \<Rightarrow> 'w \<Rightarrow> event list \<times> 'w" where
  "errorHandler p s err req w =
     (if errors_As_BadInputError err then
        (case SendNon200Response p (Error err) 400 w of
           (Some catcher, w') \<Rightarrow>
             (case callOnGeneralError s err req w' of
                (evs, w'') \<Rightarrow> (Ev_SendNon200Response (Error err) 400 # evs, w''))
         | (None, w') \<Rightarrow> ([Ev_SendNon200Response (Error err) 400], w'))
      else errorHandler_loop s err req 0 (RecipeModules s) w)"

section \<open>Routing\<close>

definition callTheirHandler :: "'w Handler \<Rightarrow> request \<Rightarrow> 'w \<Rightarrow> event list \<times> 'w" where
  "callTheirHandler theirHandler r w = ([Ev_theirHandler r], theirHandler r w)"

text \<open>The search for the module whose recipe id is the request's RID: first match.\<close>

fun middleware_match ::
  "string \<Rightarrow> nat \<Rightarrow> 'w RecipeModule list \<Rightarrow> (nat \<times> 'w RecipeModule) option" where
  "middleware_match requestRID i [] = None"
| "middleware_match requestRID i (recipeModule # rest) =
     (if GetRecipeID recipeModule = requestRID then Some (i, recipeModule)
      else middleware_match requestRID (Suc i) rest)"

text \<open>
  What the middleware does with a module that returned an API id: \<open>HandleAPIRequest\<close>,
  and the error chain if that fails (both branches of the middleware do the same).
\<close>

definition middleware_handle ::
  "'w pkg \<Rightarrow> 'w superTokens \<Rightarrow> 'w Handler \<Rightarrow> request \<Rightarrow> NormalisedURLPath \<Rightarrow> string \<Rightarrow>
   nat \<Rightarrow> 'w RecipeModule \<Rightarrow> string \<Rightarrow> 'w \<Rightarrow> event list \<times> 'w" where
  "middleware_handle p s theirHandler r path method i recipeModule apiId w =
     (case HandleAPIRequest recipeModule apiId r theirHandler path method w of
        (Some apiErr, w') \<Rightarrow>
          (case errorHandler p s apiErr r w' of
             (evs, w'') \<Rightarrow> (Ev_HandleAPIRequest i apiId path method # evs, w''))
      | (None, w') \<Rightarrow> ([Ev_HandleAPIRequest i apiId path method], w'))"

text \<open>The loop of the branch without RID, from position \<open>i\<close>.\<close>

fun middleware_scan ::
  "'w pkg \<Rightarrow> 'w superTokens \<Rightarrow> 'w Handler \<Rightarrow> request \<Rightarrow> NormalisedURLPath \<Rightarrow> string \<Rightarrow>
   nat \<Rightarrow> 'w RecipeModule list \<Rightarrow> 'w \<Rightarrow> event list \<times> 'w" where
  "middleware_scan p s theirHandler r path method i [] w = callTheirHandler theirHandler r w"
| "middleware_scan p s theirHandler r path method i (recipeModule # rest) w =
     (case ReturnAPIIdIfCanHandleRequest recipeModule path method w of
        ((apiId, Some err), w') \<Rightarrow>
          (case errorHandler p s err r w' of
             (evs, w'') \<Rightarrow> (Ev_ReturnAPIIdIfCanHandleRequest i path method # evs, w''))
      | ((Some apiId, None), w') \<Rightarrow>
          (case middleware_handle p s theirHandler r path method i recipeModule apiId w' of
             (evs, w'') \<Rightarrow> (Ev_ReturnAPIIdIfCanHandleRequest i path method # evs, w''))
      | ((None, None), w') \<Rightarrow>
          (case middleware_scan p s theirHandler r path method (Suc i) rest w' of
             (evs, w'') \<Rightarrow> (Ev_ReturnAPIIdIfCanHandleRequest i path method # evs, w'')))"

text \<open>The branch with a RID.\<close>

definition middleware_rid ::
  "'w pkg \<Rightarrow> 'w superTokens \<Rightarrow> 'w Handler \<Rightarrow> request \<Rightarrow> NormalisedURLPath \<Rightarrow> string \<Rightarrow>
   string \<Rightarrow> 'w \<Rightarrow> event list \<times> 'w" where
  "middleware_rid p s theirHandler r path method requestRID w =
     (case middleware_match requestRID 0 (RecipeModules s) of
        None \<Rightarrow> callTheirHandler theirHandler r w
      | Some (i, matchedRecipe) \<Rightarrow>
          (case ReturnAPIIdIfCanHandleRequest matchedRecipe path method w of
             ((apiId, Some err), w') \<Rightarrow>
               (case errorHandler p s err r w' of
                  (evs, w'') \<Rightarrow> (Ev_ReturnAPIIdIfCanHandleRequest i path method # evs, w''))
           | ((None, None), w') \<Rightarrow>
               (case callTheirHandler theirHandler r w' of
                  (evs, w'') \<Rightarrow> (Ev_ReturnAPIIdIfCanHandleRequest i path method # evs, w''))
           | ((Some apiId, None), w') \<Rightarrow>
               (case middleware_handle p s theirHandler r path method i matchedRecipe apiId w' of
                  (evs, w'') \<Rightarrow> (Ev_ReturnAPIIdIfCanHandleRequest i path method # evs, w''))))"

text \<open>
  The handler \<open>middleware\<close> returns. After \<open>errorHandler\<close> for a path that does not
  normalise there is no \<open>return\<close>: the handler goes on to \<open>*reqURL\<close>, which panics
  when the pointer is nil.
\<close>

definition middleware ::
  "'w pkg \<Rightarrow> 'w superTokens \<Rightarrow> 'w Handler \<Rightarrow> request \<Rightarrow> 'w \<Rightarrow> unit completion \<times> event list \<times> 'w" where
  "middleware p s theirHandler r w =
     (case NewNormalisedURLPath p (URL_Path r) of
        (reqURL, err) \<Rightarrow>
          (case (case err of Some e \<Rightarrow> errorHandler p s e r w | None \<Rightarrow> ([], w)) of
             (evs0, w0) \<Rightarrow>
               (case reqURL of
                  None \<Rightarrow> (Panicked NilPointerDereference, evs0, w0)
                | Some u \<Rightarrow>
                    (let path = AppendPath p (APIGatewayPath (AppInfo s)) u;
                         method = Method r
                     in if \<not> prefix (GetAsStringDangerous p (APIBasePath (AppInfo s)))
                                  (GetAsStringDangerous p path)
                        then (case callTheirHandler theirHandler r w0 of
                                (evs, w') \<Rightarrow> (Returned (), evs0 @ evs, w'))
                        else (let requestRID = getRIDFromRequest p r
                              in if requestRID \<noteq> [] then
                                   (case middleware_rid p s theirHandler r path method requestRID w0 of
                                      (evs, w') \<Rightarrow> (Returned (), evs0 @ evs, w'))
                                 else
                                   (case middleware_scan p s theirHandler r path method 0
                                           (RecipeModules s) w0 of
                                      (evs, w') \<Rightarrow> (Returned (), evs0 @ evs, w')))))))"

section \<open>CORS headers\<close>

text \<open>
  \<open>headerMap\<close> is a Go map used as a set: an association list with one entry for each
  key, \<open>headerMap[header] = true\<close> being \<open>AList.update header True\<close>.
\<close>

definition getAllCORSHeaders_headerMap :: "'w pkg \<Rightarrow> 'w superTokens \<Rightarrow> (string \<times> bool) list" where
  "getAllCORSHeaders_headerMap p s =
     fold (\<lambda>recipe headerMap.
             fold (\<lambda>header. AList.update header True) (GetAllCORSHeaders recipe) headerMap)
          (RecipeModules s)
          (AList.update (HeaderFDI p) True (AList.update (HeaderRID p) True []))"

text \<open>
  \<open>for header := range headerMap\<close> visits every key once, in an order Go does not
  specify. So \<open>getAllCORSHeaders\<close> is a relation: \<open>headers\<close> is a slice the function may
  return when it holds the keys of the map, each once, in some order.
\<close>

definition getAllCORSHeaders :: "'w pkg \<Rightarrow> 'w superTokens \<Rightarrow> string list \<Rightarrow> bool" where
  "getAllCORSHeaders p s headers \<longleftrightarrow>
     mset headers = mset (map fst (getAllCORSHeaders_headerMap p s))"

section \<open>The session-refresh API\<close>

text \<open>Values of type \<open>interface{}\<close>, as far as the code inspects them.\<close>

datatype iface = INil | IBool bool | IString string | IOther

text \<open>
  \<open>sessmodels.APIOptions\<close>: the fields \<open>HandleRefreshAPI\<close> reads (the response writer
  \<open>Res\<close> is part of the world).
\<close>

record 'w APIOptions =
  OtherHandler :: "'w Handler"
  Req :: request

text \<open>
  \<open>RefreshPOST\<close> is a pointer to a function value: the pointer may be nil, and so may
  the function. The first result of the function is discarded by the handler, so the
  model keeps the error only.
\<close>

record ('w, 'c) APIInterface =
  RefreshPOST :: "('w APIOptions \<Rightarrow> 'c \<Rightarrow> 'w \<Rightarrow> error option \<times> 'w) option option"

text \<open>Functions of package \<open>supertokens\<close> that \<open>refresh.go\<close> calls and other files define.\<close>

record ('w, 'c) session_pkg =
  MakeDefaultUserContextFromAPI :: "request \<Rightarrow> 'c"
  Send200Response :: "iface \<Rightarrow> 'w \<Rightarrow> error option \<times> 'w"

datatype 'c refresh_event =
    Ev_OtherHandler request
  | Ev_RefreshPOST request 'c
  | Ev_Send200Response iface

definition HandleRefreshAPI ::
  "('w, 'c) session_pkg \<Rightarrow> ('w, 'c) APIInterface \<Rightarrow> 'w APIOptions \<Rightarrow> 'w \<Rightarrow>
   error option \<times> 'c refresh_event list \<times> 'w" where
  "HandleRefreshAPI sp apiImplementation options w =
     (case RefreshPOST apiImplementation of
        None \<Rightarrow> (None, [Ev_OtherHandler (Req options)], OtherHandler options (Req options) w)
      | Some None \<Rightarrow> (None, [Ev_OtherHandler (Req options)], OtherHandler options (Req options) w)
      | Some (Some refreshPOST) \<Rightarrow>
          (let userContext = MakeDefaultUserContextFromAPI sp (Req options)
           in case refreshPOST options userContext w of
                (Some err, w') \<Rightarrow> (Some err, [Ev_RefreshPOST (Req options) userContext], w')
              | (None, w') \<Rightarrow>
                  (case Send200Response sp INil w' of
                     (res, w'') \<Rightarrow>
                       (res, [Ev_RefreshPOST (Req options) userContext, Ev_Send200Response INil], w''))))"

section \<open>Initialisation\<close>

record SupertokenTypeInput =
  ConnectionURI :: string
  APIKey :: "string option"

record AppInfoInput =
  in_AppName :: string
  in_APIDomain :: string
  in_WebsiteDomain :: string

type_synonym 'w RecipeListFunction =
  "NormalisedAppinfo \<Rightarrow> 'w \<Rightarrow> ('w RecipeModule option \<times> error option) \<times> 'w"

text \<open>
  \<open>TypeInput\<close>. Its fields \<open>AppInfo\<close> and \<open>OnGeneralError\<close> carry the prefix \<open>in_\<close> here,
  the names being taken by the fields of \<open>superTokens\<close>.
\<close>

record 'w TypeInput =
  Supertokens :: "SupertokenTypeInput option"
  in_AppInfo :: AppInfoInput
  RecipeList :: "'w RecipeListFunction list"
  Telemetry :: "bool option"
  in_OnGeneralError :: "(error \<Rightarrow> request \<Rightarrow> 'w \<Rightarrow> 'w) option"

datatype Querier = Querier string

record outgoing =
  out_method :: string
  out_url :: string
  out_body :: string
  out_header :: "(string \<times> string) list"

text \<open>
  What \<open>supertokensInit\<close> and \<open>sendTelemetry\<close> call and other files or the standard
  library define. None of them is taken to assign the package variable
  \<open>superTokensInstance\<close>, which is kept apart from the world.
\<close>

record 'w init_pkg =
  NormaliseInputAppInfoOrThrowError :: "AppInfoInput \<Rightarrow> NormalisedAppinfo \<times> error option"
  NewNormalisedURLDomain :: "string \<Rightarrow> bool \<Rightarrow> NormalisedURLDomain option \<times> error option"
  initQuerier :: "NormalisedURLDomain list \<Rightarrow> string option \<Rightarrow> 'w \<Rightarrow> 'w"
  http_Error :: "string \<Rightarrow> nat \<Rightarrow> 'w \<Rightarrow> 'w"
  GetNewQuerierInstanceOrThrowError :: "string \<Rightarrow> 'w \<Rightarrow> Querier option \<times> error option"
  SendGetRequest ::
    "Querier option \<Rightarrow> string \<Rightarrow> (string \<times> string) list option \<Rightarrow> 'w \<Rightarrow>
     ((string \<times> iface) list \<times> error option) \<times> 'w"
  Domain_GetAsStringDangerous :: "NormalisedURLDomain \<Rightarrow> string"
  json_Marshal :: "(string \<times> iface) list \<Rightarrow> string \<times> error option"
  http_NewRequest :: "string \<Rightarrow> string \<Rightarrow> string \<Rightarrow> outgoing option \<times> error option"
  client_Do :: "outgoing \<Rightarrow> 'w \<Rightarrow> error option \<times> 'w"

text \<open>\<open>strings.Split\<close> with a separator of one character.\<close>

fun strings_Split :: "string \<Rightarrow> char \<Rightarrow> string list" where
  "strings_Split [] sep = [[]]"
| "strings_Split (c # cs) sep =
     (if c = sep then [] # strings_Split cs sep
      else (case strings_Split cs sep of
              [] \<Rightarrow> [[c]]
            | x # xs \<Rightarrow> (c # x) # xs))"

definition defaultOnGeneralError :: "'w init_pkg \<Rightarrow> error \<Rightarrow> request \<Rightarrow> 'w \<Rightarrow> 'w" where
  "defaultOnGeneralError ip err req w = http_Error ip (Error err) 500 w"

definition getInstanceOrThrowError ::
  "'w superTokens option \<Rightarrow> 'w superTokens option \<times> error option" where
  "getInstanceOrThrowError superTokensInstance =
     (case superTokensInstance of
        Some s \<Rightarrow> (Some s, None)
      | None \<Rightarrow> (None, Some (ErrorString
          ''initialisation not done. Did you forget to call the SuperTokens.init function?'')))"

text \<open>
  \<open>sendTelemetry\<close> reads \<open>superTokensInstance\<close>. The type assertions \<open>.(bool)\<close> and
  \<open>.(string)\<close> panic on a value of another type (a missing key gives nil), and so do
  \<open>superTokensInstance.AppInfo\<close> and \<open>req.Header\<close> on a nil pointer.
\<close>

definition sendTelemetry ::
  "'w init_pkg \<Rightarrow> 'w superTokens option \<Rightarrow> 'w \<Rightarrow> error option completion \<times> 'w" where
  "sendTelemetry ip superTokensInstance w =
     (case GetNewQuerierInstanceOrThrowError ip [] w of
        (querier, Some err) \<Rightarrow> (Returned (Some err), w)
      | (querier, None) \<Rightarrow>
          (case SendGetRequest ip querier ''/telemetry'' None w of
             ((response, Some err), w1) \<Rightarrow> (Returned (Some err), w1)
           | ((response, None), w1) \<Rightarrow>
               (case map_of response ''exists'' of
                  Some (IBool exists) \<Rightarrow>
                    (case (if exists
                           then (case map_of response ''telemetryId'' of
                                   Some (IString t) \<Rightarrow> Some t
                                 | _ \<Rightarrow> None)
                           else Some []) of
                       None \<Rightarrow> (Panicked TypeAssertionFailed, w1)
                     | Some telemetryID \<Rightarrow>
                         (case superTokensInstance of
                            None \<Rightarrow> (Panicked NilPointerDereference, w1)
                          | Some inst \<Rightarrow>
                              (let data =
                                 [(''appName'', IString (AppName (AppInfo inst))),
                                  (''websiteDomain'', IString (Domain_GetAsStringDangerous ip
                                      (WebsiteDomain (AppInfo inst)))),
                                  (''telemetryId'', IString telemetryID),
                                  (''sdk'', IString ''golang'')]
                               in case json_Marshal ip data of
                                    (jsonData, Some err) \<Rightarrow> (Returned (Some err), w1)
                                  | (jsonData, None) \<Rightarrow>
                                      (case http_NewRequest ip ''POST''
                                              ''https://api.supertokens.io/0/st/telemetry'' jsonData of
                                         (req, Some err) \<Rightarrow> (Returned (Some err), w1)
                                       | (None, None) \<Rightarrow> (Panicked NilPointerDereference, w1)
                                       | (Some req, None) \<Rightarrow>
                                           (case client_Do ip
                                                   (req\<lparr>out_header :=
                                                      AList.update ''api-version'' ''2'' (out_header req)\<rparr>)
                                                   w1 of
                                              (Some err, w2) \<Rightarrow> (Returned (Some err), w2)
                                            | (None, w2) \<Rightarrow> (Returned None, w2))))))
                | _ \<Rightarrow> (Panicked TypeAssertionFailed, w1))))"

text \<open>The loop over the hosts of the connection URI; \<open>*host\<close> panics on a nil pointer.\<close>

fun supertokensInit_hosts ::
  "'w init_pkg \<Rightarrow> string list \<Rightarrow> NormalisedURLDomain list \<Rightarrow>
   (error + NormalisedURLDomain list) completion" where
  "supertokensInit_hosts ip [] hosts = Returned (Inr hosts)"
| "supertokensInit_hosts ip (h # rest) hosts =
     (case NewNormalisedURLDomain ip h False of
        (host, Some err) \<Rightarrow> Returned (Inl err)
      | (None, None) \<Rightarrow> Panicked NilPointerDereference
      | (Some host, None) \<Rightarrow> supertokensInit_hosts ip rest (hosts @ [host]))"

text \<open>The loop over the recipe list; \<open>*recipeModule\<close> panics on a nil pointer.\<close>

fun supertokensInit_recipes ::
  "NormalisedAppinfo \<Rightarrow> 'w RecipeListFunction list \<Rightarrow> 'w RecipeModule list \<Rightarrow> 'w \<Rightarrow>
   (error + 'w RecipeModule list) completion \<times> 'w" where
  "supertokensInit_recipes appInfo [] modules w = (Returned (Inr modules), w)"
| "supertokensInit_recipes appInfo (elem # rest) modules w =
     (case elem appInfo w of
        ((recipeModule, Some err), w') \<Rightarrow> (Returned (Inl err), w')
      | ((None, None), w') \<Rightarrow> (Panicked NilPointerDereference, w')
      | ((Some recipeModule, None), w') \<Rightarrow>
          supertokensInit_recipes appInfo rest (modules @ [recipeModule]) w')"

text \<open>
  \<open>supertokensInit\<close>, on the package variable \<open>superTokensInstance\<close> and the world. It
  returns the error (or nil), or panics, and the two as it leaves them.
\<close>

definition supertokensInit ::
  "'w init_pkg \<Rightarrow> 'w TypeInput \<Rightarrow> 'w superTokens option \<Rightarrow> 'w \<Rightarrow>
   error option completion \<times> 'w superTokens option \<times> 'w" where
  "supertokensInit ip config superTokensInstance w =
     (if superTokensInstance \<noteq> None then (Returned None, superTokensInstance, w)
      else
        (let onGeneralError = (case in_OnGeneralError config of
                                 Some f \<Rightarrow> f
                               | None \<Rightarrow> defaultOnGeneralError ip)
         in case NormaliseInputAppInfoOrThrowError ip (in_AppInfo config) of
              (appInfo, Some err) \<Rightarrow> (Returned (Some err), superTokensInstance, w)
            | (appInfo, None) \<Rightarrow>
                (case (case Supertokens config of
                         Some st \<Rightarrow>
                           (case supertokensInit_hosts ip (strings_Split (ConnectionURI st) CHR '';'') [] of
                              Panicked pn \<Rightarrow> (Panicked pn, w)
                            | Returned (Inl err) \<Rightarrow> (Returned (Some err), w)
                            | Returned (Inr hosts) \<Rightarrow> (Returned None, initQuerier ip hosts (APIKey st) w))
                       | None \<Rightarrow> (Returned None, initQuerier ip [] None w)) of
                   (Panicked pn, w1) \<Rightarrow> (Panicked pn, superTokensInstance, w1)
                 | (Returned (Some err), w1) \<Rightarrow> (Returned (Some err), superTokensInstance, w1)
                 | (Returned None, w1) \<Rightarrow>
                     (if RecipeList config = [] then
                        (Returned (Some (ErrorString
                           ''please provide at least one recipe to the supertokens.init function call'')),
                         superTokensInstance, w1)
                      else
                        (case supertokensInit_recipes appInfo (RecipeList config) [] w1 of
                           (Panicked pn, w2) \<Rightarrow> (Panicked pn, superTokensInstance, w2)
                         | (Returned (Inl err), w2) \<Rightarrow> (Returned (Some err), superTokensInstance, w2)
                         | (Returned (Inr modules), w2) \<Rightarrow>
                             (case (if Telemetry config = Some True
                                    then sendTelemetry ip superTokensInstance w2
                                    else (Returned None, w2)) of
                                (Panicked pn, w3) \<Rightarrow> (Panicked pn, superTokensInstance, w3)
                              | (Returned ignored, w3) \<Rightarrow>
                                  (Returned None,
                                   Some \<lparr>AppInfo = appInfo, RecipeModules = modules,
                                         OnGeneralError = onGeneralError\<rparr>,
                                   w3)))))))"

section \<open>Notions used in the statements\<close>

text \<open>
  The positions of the modules whose \<open>ReturnAPIIdIfCanHandleRequest\<close> was called, in the
  order of the calls.
\<close>

fun queried :: "event list \<Rightarrow> nat list" where
  "queried [] = []"
| "queried (Ev_ReturnAPIIdIfCanHandleRequest i path method # evs) = i # queried evs"
| "queried (ev # evs) = queried evs"

text \<open>
  \<open>declined path method ms w\<close>: every module of \<open>ms\<close>, asked in turn from the world \<open>w\<close>
  whether it can handle the request, returns no API id and no error. \<open>asked\<close> is the
  world after these calls, \<open>ask_events\<close> the calls, for the positions from \<open>i\<close> on.
\<close>

fun declined :: "NormalisedURLPath \<Rightarrow> string \<Rightarrow> 'w RecipeModule list \<Rightarrow> 'w \<Rightarrow> bool" where
  "declined path method [] w = True"
| "declined path method (m # ms) w =
     (fst (ReturnAPIIdIfCanHandleRequest m path method w) = (None, None) \<and>
      declined path method ms (snd (ReturnAPIIdIfCanHandleRequest m path method w)))"

fun asked :: "NormalisedURLPath \<Rightarrow> string \<Rightarrow> 'w RecipeModule list \<Rightarrow> 'w \<Rightarrow> 'w" where
  "asked path method [] w = w"
| "asked path method (m # ms) w =
     asked path method ms (snd (ReturnAPIIdIfCanHandleRequest m path method w))"

definition ask_events :: "NormalisedURLPath \<Rightarrow> string \<Rightarrow> nat \<Rightarrow> nat \<Rightarrow> event list" where
  "ask_events path method i n = map (\<lambda>k. Ev_ReturnAPIIdIfCanHandleRequest k path method) [i..<i + n]"

text \<open>
  \<open>unhandled err req ms w\<close>: every error hook of the modules of \<open>ms\<close>, called in turn from
  the world \<open>w\<close>, returns \<open>(false, nil)\<close>; modules without a hook are passed over.
  \<open>after_hooks\<close> is the world after these calls, \<open>hook_events\<close> the calls, the first
  module of the list being at position \<open>i\<close>.
\<close>

fun unhandled :: "error \<Rightarrow> request \<Rightarrow> 'w RecipeModule list \<Rightarrow> 'w \<Rightarrow> bool" where
  "unhandled err req [] w = True"
| "unhandled err req (m # ms) w =
     (case HandleError m of
        None \<Rightarrow> unhandled err req ms w
      | Some hook \<Rightarrow>
          fst (hook err req w) = (False, None) \<and> unhandled err req ms (snd (hook err req w)))"

fun after_hooks :: "error \<Rightarrow> request \<Rightarrow> 'w RecipeModule list \<Rightarrow> 'w \<Rightarrow> 'w" where
  "after_hooks err req [] w = w"
| "after_hooks err req (m # ms) w =
     (case HandleError m of
        None \<Rightarrow> after_hooks err req ms w
      | Some hook \<Rightarrow> after_hooks err req ms (snd (hook err req w)))"

fun hook_events :: "error \<Rightarrow> nat \<Rightarrow> 'w RecipeModule list \<Rightarrow> event list" where
  "hook_events err i [] = []"
| "hook_events err i (m # ms) =
     (case HandleError m of
        None \<Rightarrow> hook_events err (Suc i) ms
      | Some hook \<Rightarrow> Ev_HandleError i err # hook_events err (Suc i) ms)"

section \<open>An example deployment\<close>

text \<open>
  A concrete world, package and dispatcher to run the definitions on. The world is the
  list of lines written so far. Paths normalise when they start with a slash.
\<close>

definition ex_pkg :: "string list pkg" where
  "ex_pkg = \<lparr>
     NewNormalisedURLPath = (\<lambda>x. if prefix ''/'' x then (Some (NormalisedURLPath x), None)
                                 else (None, Some (BadInputError ''invalid path''))),
     AppendPath = (\<lambda>a b. case (a, b) of
                     (NormalisedURLPath x, NormalisedURLPath y) \<Rightarrow> NormalisedURLPath (x @ y)),
     GetAsStringDangerous = (\<lambda>a. case a of NormalisedURLPath x \<Rightarrow> x),
     getRIDFromRequest = (\<lambda>r. case map_of (Header r) ''rid'' of None \<Rightarrow> [] | Some v \<Rightarrow> v),
     SendNon200Response = (\<lambda>msg code w. (None, w @ [msg])),
     HeaderRID = ''rid'',
     HeaderFDI = ''fdi-version'' \<rparr>"

definition ex_appInfo :: NormalisedAppinfo where
  "ex_appInfo = \<lparr>
     AppName = ''demo'',
     APIDomain = NormalisedURLDomain ''http://localhost:3001'',
     WebsiteDomain = NormalisedURLDomain ''http://localhost:3000'',
     APIBasePath = NormalisedURLPath ''/auth'',
     APIGatewayPath = NormalisedURLPath [] \<rparr>"

text \<open>
  A recipe that claims one path under an API id, writes a line when it handles it, and
  has no error hook.
\<close>

definition ex_recipe :: "string \<Rightarrow> string \<Rightarrow> string list RecipeModule" where
  "ex_recipe rid claimed = \<lparr>
     GetRecipeID = rid,
     ReturnAPIIdIfCanHandleRequest =
       (\<lambda>path method w. ((if path = NormalisedURLPath claimed then Some rid else None, None), w)),
     HandleAPIRequest = (\<lambda>apiId r theirHandler path method w. (None, w @ [rid @ '' handled''])),
     GetAllCORSHeaders = [rid @ ''-header''],
     HandleError = None \<rparr>"

text \<open>
  A recipe with chosen answers: what it says to \<open>ReturnAPIIdIfCanHandleRequest\<close>, what
  its \<open>HandleAPIRequest\<close> returns, and what its error hook returns if it has one. Every
  call writes a line.
\<close>

definition ex_module ::
  "string \<Rightarrow> (NormalisedURLPath \<Rightarrow> string option \<times> error option) \<Rightarrow> error option \<Rightarrow>
   (bool \<times> error option) option \<Rightarrow> string list RecipeModule" where
  "ex_module rid claim result hook = \<lparr>
     GetRecipeID = rid,
     ReturnAPIIdIfCanHandleRequest = (\<lambda>path method w. (claim path, w @ [rid @ '' asked''])),
     HandleAPIRequest =
       (\<lambda>apiId r theirHandler path method w. (result, w @ [rid @ '' handles '' @ apiId])),
     GetAllCORSHeaders = [rid @ ''-header''],
     HandleError = map_option (\<lambda>out err req w. (out, w @ [rid @ '' hook''])) hook \<rparr>"

definition ex_silent :: "string \<Rightarrow> string list RecipeModule" where
  "ex_silent rid = ex_module rid (\<lambda>path. (None, None)) None None"

definition ex_claiming :: "string \<Rightarrow> string \<Rightarrow> string list RecipeModule" where
  "ex_claiming rid apiId = ex_module rid (\<lambda>path. (Some apiId, None)) None None"

definition ex_failing :: "string \<Rightarrow> string list RecipeModule" where
  "ex_failing rid = ex_module rid (\<lambda>path. (None, Some (ErrorString (rid @ '' failed'')))) None None"

definition ex_superTokens :: "string list RecipeModule list \<Rightarrow> string list superTokens" where
  "ex_superTokens ms = \<lparr>
     AppInfo = ex_appInfo,
     RecipeModules = ms,
     OnGeneralError = (\<lambda>err req w. w @ [''500 '' @ Error err]) \<rparr>"

definition ex_theirHandler :: "string list Handler" where
  "ex_theirHandler r w = w @ [''fallback'']"

definition ex_request :: "string \<Rightarrow> (string \<times> string) list \<Rightarrow> request" where
  "ex_request path hdr = \<lparr> URL_Path = path, Method = ''GET'', Header = hdr \<rparr>"

text \<open>
  The session package of the example: the user context is the path of the request, and
  \<open>Send200Response\<close> writes a line.
\<close>

definition ex_session_pkg :: "(string list, string) session_pkg" where
  "ex_session_pkg = \<lparr>
     MakeDefaultUserContextFromAPI = (\<lambda>r. URL_Path r),
     Send200Response = (\<lambda>body w. (None, w @ [''200''])) \<rparr>"

definition ex_options :: "string list APIOptions" where
  "ex_options = \<lparr>
     OtherHandler = ex_theirHandler,
     Req = ex_request ''/auth/session/refresh'' [] \<rparr>"

definition ex_refreshPOST ::
  "error option \<Rightarrow> string list APIOptions \<Rightarrow> string \<Rightarrow> string list \<Rightarrow> error option \<times> string list" where
  "ex_refreshPOST result options userContext w = (result, w @ [''refresh for '' @ userContext])"

definition ex_api ::
  "(string list APIOptions \<Rightarrow> string \<Rightarrow> string list \<Rightarrow> error option \<times> string list) option option \<Rightarrow>
   (string list, string) APIInterface" where
  "ex_api f = \<lparr> RefreshPOST = f \<rparr>"

text \<open>
  The initialisation of the example: an app info needs an API domain, a host of the
  connection URI needs a scheme, and the core answers the telemetry request.
\<close>

definition ex_init_pkg :: "string list init_pkg" where
  "ex_init_pkg = \<lparr>
     NormaliseInputAppInfoOrThrowError =
       (\<lambda>a. (ex_appInfo, if in_APIDomain a = [] then Some (ErrorString ''please provide your apiDomain'')
                          else None)),
     NewNormalisedURLDomain =
       (\<lambda>h ignoreProtocol. if prefix ''http'' h then (Some (NormalisedURLDomain h), None)
                            else (None, Some (ErrorString ''please provide a valid domain name''))),
     initQuerier = (\<lambda>hosts key w. w @ [''querier'']),
     http_Error = (\<lambda>msg code w. w @ [msg]),
     GetNewQuerierInstanceOrThrowError = (\<lambda>rid w. (Some (Querier rid), None)),
     SendGetRequest = (\<lambda>q path params w. (([(''exists'', IBool False)], None), w @ [''GET '' @ path])),
     Domain_GetAsStringDangerous = (\<lambda>d. case d of NormalisedURLDomain x \<Rightarrow> x),
     json_Marshal = (\<lambda>data. (''{}'', None)),
     http_NewRequest =
       (\<lambda>m u b. (Some \<lparr>out_method = m, out_url = u, out_body = b, out_header = []\<rparr>, None)),
     client_Do = (\<lambda>req w. (None, w @ [''POST '' @ out_url req])) \<rparr>"

definition ex_config :: "string \<Rightarrow> string \<Rightarrow> string list RecipeListFunction list \<Rightarrow> string list TypeInput" where
  "ex_config apiDomain connectionURI recipes = \<lparr>
     Supertokens = Some \<lparr>ConnectionURI = connectionURI, APIKey = None\<rparr>,
     in_AppInfo = \<lparr>in_AppName = ''demo'', in_APIDomain = apiDomain,
                   in_WebsiteDomain = ''http://localhost:3000''\<rparr>,
     RecipeList = recipes,
     Telemetry = None,
     in_OnGeneralError = None \<rparr>"

text \<open>A recipe factory that gives a module (or a nil pointer) and an error (or nil).\<close>

definition ex_factory ::
  "string list RecipeModule option \<Rightarrow> error option \<Rightarrow> string list RecipeListFunction" where
  "ex_factory m e appInfo w = ((m, e), w @ [''factory''])"

section \<open>Theorems\<close>

subsection \<open>Requests outside the API base path\<close>

text \<open>
  C6. When the path normalises and the gateway path followed by it does not start with
  the API base path, the middleware calls the fallback handler, returns, and calls
  nothing else: no method of any recipe module.
\<close>

theorem middleware_outside_base_path:
  assumes "NewNormalisedURLPath p (URL_Path r) = (Some u, None)"
    and "\<not> prefix (GetAsStringDangerous p (APIBasePath (AppInfo s)))
                 (GetAsStringDangerous p (AppendPath p (APIGatewayPath (AppInfo s)) u))"
  shows "middleware p s theirHandler r w = (Returned (), [Ev_theirHandler r], theirHandler r w)"
  using assms by (simp add: middleware_def callTheirHandler_def)

theorem middleware_outside_base_path_witness:
  "NewNormalisedURLPath ex_pkg (URL_Path (ex_request ''/profile'' [])) =
     (Some (NormalisedURLPath ''/profile''), None) \<and>
   middleware ex_pkg (ex_superTokens [ex_recipe ''session'' ''/auth/sessioninfo'']) ex_theirHandler
     (ex_request ''/profile'' []) [] =
   (Returned (), [Ev_theirHandler (ex_request ''/profile'' [])], [''fallback''])"
  using middleware_outside_base_path [of ex_pkg "ex_request ''/profile'' []"
      "NormalisedURLPath ''/profile''"
      "ex_superTokens [ex_recipe ''session'' ''/auth/sessioninfo'']" ex_theirHandler "[]"]
  by (simp add: ex_pkg_def ex_request_def ex_superTokens_def ex_appInfo_def ex_theirHandler_def)

subsection \<open>BadInputError in the error chain\<close>

text \<open>
  C5. For an error that \<open>errors.As\<close> finds to be a \<open>BadInputError\<close>, \<open>errorHandler\<close> calls
  \<open>SendNon200Response\<close> with the error's message and status 400 and no hook of any
  recipe module; when that write returns an error, it calls the general error handler
  with the error it was given (not with the error of the write), and nothing else.
\<close>

theorem errorHandler_BadInputError:
  assumes "errors_As_BadInputError err"
  shows "errorHandler p s err req w =
     (case SendNon200Response p (Error err) 400 w of
        (None, w') \<Rightarrow> ([Ev_SendNon200Response (Error err) 400], w')
      | (Some catcher, w') \<Rightarrow>
          ([Ev_SendNon200Response (Error err) 400, Ev_OnGeneralError err],
           OnGeneralError s err req w'))"
  using assms
  by (simp add: errorHandler_def callOnGeneralError_def split: prod.splits option.splits)

theorem errorHandler_BadInputError_witness:
  "errors_As_BadInputError (WrapError ''bad form field'' (BadInputError ''no email'')) \<and>
   errorHandler ex_pkg (ex_superTokens [ex_recipe ''session'' ''/auth/sessioninfo''])
     (WrapError ''bad form field'' (BadInputError ''no email'')) (ex_request ''/auth/signin'' []) [] =
   ([Ev_SendNon200Response ''bad form field'' 400], [''bad form field'']) \<and>
   errorHandler (ex_pkg\<lparr>SendNon200Response := \<lambda>msg code w. (Some (ErrorString ''broken pipe''), w)\<rparr>)
     (ex_superTokens [ex_recipe ''session'' ''/auth/sessioninfo''])
     (BadInputError ''no email'') (ex_request ''/auth/signin'' []) [] =
   ([Ev_SendNon200Response ''no email'' 400, Ev_OnGeneralError (BadInputError ''no email'')],
    [''500 no email''])"
  using errorHandler_BadInputError [of "WrapError ''bad form field'' (BadInputError ''no email'')"
      ex_pkg "ex_superTokens [ex_recipe ''session'' ''/auth/sessioninfo'']"
      "ex_request ''/auth/signin'' []" "[]"]
    errorHandler_BadInputError [of "BadInputError ''no email''"
      "ex_pkg\<lparr>SendNon200Response := \<lambda>msg code w. (Some (ErrorString ''broken pipe''), w)\<rparr>"
      "ex_superTokens [ex_recipe ''session'' ''/auth/sessioninfo'']"
      "ex_request ''/auth/signin'' []" "[]"]
  by (simp add: ex_pkg_def ex_superTokens_def)

subsection \<open>A path that does not normalise\<close>

text \<open>
  C9. When \<open>NewNormalisedURLPath\<close> fails (a nil pointer and an error), the middleware
  calls \<open>errorHandler\<close> and does not return: it goes on to \<open>*reqURL\<close> and panics on the
  nil pointer, with everything \<open>errorHandler\<close> did already done.
\<close>

theorem middleware_goes_on_after_failed_normalisation:
  assumes "NewNormalisedURLPath p (URL_Path r) = (None, Some e)"
  shows "middleware p s theirHandler r w =
     (case errorHandler p s e r w of (evs, w') \<Rightarrow> (Panicked NilPointerDereference, evs, w'))"
  using assms by (simp add: middleware_def split: prod.splits)

theorem middleware_goes_on_after_failed_normalisation_witness:
  "NewNormalisedURLPath ex_pkg (URL_Path (ex_request ''profile'' [])) =
     (None, Some (BadInputError ''invalid path'')) \<and>
   middleware ex_pkg (ex_superTokens [ex_recipe ''session'' ''/auth/sessioninfo'']) ex_theirHandler
     (ex_request ''profile'' []) [] =
   (Panicked NilPointerDereference, [Ev_SendNon200Response ''invalid path'' 400], [''invalid path''])"
  using middleware_goes_on_after_failed_normalisation [of ex_pkg "ex_request ''profile'' []"
      "BadInputError ''invalid path''"
      "ex_superTokens [ex_recipe ''session'' ''/auth/sessioninfo'']" ex_theirHandler "[]"]
  by (simp add: ex_pkg_def ex_request_def errorHandler_def)

text \<open>
  C3. The claim asks that routing stops once the error of a path that does not
  normalise has gone to the error chain. On the request for \<open>auth/sessioninfo\<close> (no
  leading slash, which the example package rejects with a nil pointer) the middleware
  writes the 400 response and then panics instead of returning.
\<close>

theorem middleware_malformed_path_panics:
  "middleware ex_pkg (ex_superTokens [ex_recipe ''session'' ''/auth/sessioninfo'']) ex_theirHandler
     (ex_request ''auth/sessioninfo'' []) [] =
   (Panicked NilPointerDereference, [Ev_SendNon200Response ''invalid path'' 400], [''invalid path''])"
  by (simp add: middleware_def ex_pkg_def ex_request_def errorHandler_def)

subsection \<open>Routing without RID\<close>

lemmas ex_defs = ex_pkg_def ex_request_def ex_superTokens_def ex_appInfo_def ex_theirHandler_def
  ex_module_def ex_silent_def ex_claiming_def ex_failing_def

lemma queried_append: "queried (xs @ ys) = queried xs @ queried ys"
  by (induction xs rule: queried.induct) simp_all

lemma queried_ask_events: "queried (ask_events path method i n) = [i..<i + n]"
proof (induction n arbitrary: i)
  case 0
  then show ?case by (simp add: ask_events_def)
next
  case (Suc n)
  have "ask_events path method i (Suc n) =
        Ev_ReturnAPIIdIfCanHandleRequest i path method # ask_events path method (Suc i) n"
    by (simp add: ask_events_def upt_rec)
  then show ?case using Suc [of "Suc i"] by (simp add: upt_rec)
qed

lemma ask_events_Suc:
  "ask_events path method i (Suc n) =
     Ev_ReturnAPIIdIfCanHandleRequest i path method # ask_events path method (Suc i) n"
  by (simp add: ask_events_def upt_rec)

lemma ask_events_snoc:
  "ask_events path method 0 (Suc n) =
     ask_events path method 0 n @ [Ev_ReturnAPIIdIfCanHandleRequest n path method]"
  by (simp add: ask_events_def)

lemma queried_errorHandler_loop:
  "errorHandler_loop s err req i ms w = (evs, w') \<Longrightarrow> queried evs = []"
proof (induction ms arbitrary: i w evs w')
  case Nil
  then show ?case by (auto simp: callOnGeneralError_def)
next
  case (Cons m ms)
  show ?case
  proof (cases "HandleError m")
    case None
    then show ?thesis using Cons by simp
  next
    case (Some hook)
    then show ?thesis using Cons.prems Cons.IH
      by (auto simp: callOnGeneralError_def split: option.splits prod.splits if_splits)
  qed
qed

lemma queried_errorHandler: "errorHandler p s err req w = (evs, w') \<Longrightarrow> queried evs = []"
  by (auto simp: errorHandler_def callOnGeneralError_def
           dest: queried_errorHandler_loop split: option.splits prod.splits if_splits)

lemma middleware_scan_declined:
  "declined path method pre w \<Longrightarrow>
   middleware_scan p s h r path method i (pre @ rest) w =
     (case middleware_scan p s h r path method (i + length pre) rest (asked path method pre w) of
        (evs, w') \<Rightarrow> (ask_events path method i (length pre) @ evs, w'))"
proof (induction pre arbitrary: i w)
  case Nil
  then show ?case by (simp add: ask_events_def)
next
  case (Cons m pre)
  obtain w1 where m: "ReturnAPIIdIfCanHandleRequest m path method w = ((None, None), w1)"
    using Cons.prems by (cases "ReturnAPIIdIfCanHandleRequest m path method w") auto
  have d: "declined path method pre w1" using Cons.prems m by simp
  show ?case
    using Cons.IH [OF d, of "Suc i"] m
    by (simp add: ask_events_Suc split: prod.splits)
qed


lemma middleware_no_RID_scan:
  assumes "NewNormalisedURLPath p (URL_Path r) = (Some u, None)"
    and "path = AppendPath p (APIGatewayPath (AppInfo s)) u"
    and "prefix (GetAsStringDangerous p (APIBasePath (AppInfo s))) (GetAsStringDangerous p path)"
    and "getRIDFromRequest p r = []"
  shows "middleware p s h r w =
     (case middleware_scan p s h r path (Method r) 0 (RecipeModules s) w of
        (evs, w') \<Rightarrow> (Returned (), evs, w'))"
  using assms by (simp add: middleware_def)

text \<open>
  C1. For a request inside the API base path and without RID, the modules are asked in
  the order of registration. The first module that returns an API id has its
  \<open>HandleAPIRequest\<close> called with that id (an error of it going to the error chain);
  the first module that returns an error sends that error to the error chain. In both
  cases the modules asked are those up to this one and no module after it. When every
  module declines, all have been asked and the fallback handler is called.
\<close>

theorem middleware_without_RID:
  assumes norm: "NewNormalisedURLPath p (URL_Path r) = (Some u, None)"
    and path: "path = AppendPath p (APIGatewayPath (AppInfo s)) u"
    and inside: "prefix (GetAsStringDangerous p (APIBasePath (AppInfo s)))
                        (GetAsStringDangerous p path)"
    and norid: "getRIDFromRequest p r = []"
  shows
    "(\<forall>pre m post apiId w1.
        RecipeModules s = pre @ m # post \<and> declined path (Method r) pre w \<and>
        ReturnAPIIdIfCanHandleRequest m path (Method r) (asked path (Method r) pre w) =
          ((Some apiId, None), w1) \<longrightarrow>
        middleware p s h r w =
          (case HandleAPIRequest m apiId r h path (Method r) w1 of
             (None, w2) \<Rightarrow>
               (Returned (),
                ask_events path (Method r) 0 (Suc (length pre)) @
                  [Ev_HandleAPIRequest (length pre) apiId path (Method r)],
                w2)
           | (Some apiErr, w2) \<Rightarrow>
               (case errorHandler p s apiErr r w2 of
                  (evs, w3) \<Rightarrow>
                    (Returned (),
                     ask_events path (Method r) 0 (Suc (length pre)) @
                       Ev_HandleAPIRequest (length pre) apiId path (Method r) # evs,
                     w3))) \<and>
        queried (fst (snd (middleware p s h r w))) = [0..<Suc (length pre)]) \<and>
     (\<forall>pre m post x err w1.
        RecipeModules s = pre @ m # post \<and> declined path (Method r) pre w \<and>
        ReturnAPIIdIfCanHandleRequest m path (Method r) (asked path (Method r) pre w) =
          ((x, Some err), w1) \<longrightarrow>
        middleware p s h r w =
          (case errorHandler p s err r w1 of
             (evs, w2) \<Rightarrow> (Returned (), ask_events path (Method r) 0 (Suc (length pre)) @ evs, w2)) \<and>
        queried (fst (snd (middleware p s h r w))) = [0..<Suc (length pre)]) \<and>
     (declined path (Method r) (RecipeModules s) w \<longrightarrow>
        middleware p s h r w =
          (Returned (),
           ask_events path (Method r) 0 (length (RecipeModules s)) @ [Ev_theirHandler r],
           h r (asked path (Method r) (RecipeModules s) w)))"
proof -
  note mw = middleware_no_RID_scan [OF norm path inside norid, of h w]
  have claimed: "middleware p s h r w =
          (case HandleAPIRequest m apiId r h path (Method r) w1 of
             (None, w2) \<Rightarrow>
               (Returned (),
                ask_events path (Method r) 0 (Suc (length pre)) @
                  [Ev_HandleAPIRequest (length pre) apiId path (Method r)],
                w2)
           | (Some apiErr, w2) \<Rightarrow>
               (case errorHandler p s apiErr r w2 of
                  (evs, w3) \<Rightarrow>
                    (Returned (),
                     ask_events path (Method r) 0 (Suc (length pre)) @
                       Ev_HandleAPIRequest (length pre) apiId path (Method r) # evs,
                     w3))) \<and>
        queried (fst (snd (middleware p s h r w))) = [0..<Suc (length pre)]"
    if ms: "RecipeModules s = pre @ m # post" and d: "declined path (Method r) pre w"
      and m: "ReturnAPIIdIfCanHandleRequest m path (Method r) (asked path (Method r) pre w) =
          ((Some apiId, None), w1)"
    for pre m post apiId w1
  proof -
    have eq: "middleware p s h r w =
          (case HandleAPIRequest m apiId r h path (Method r) w1 of
             (None, w2) \<Rightarrow>
               (Returned (),
                ask_events path (Method r) 0 (Suc (length pre)) @
                  [Ev_HandleAPIRequest (length pre) apiId path (Method r)],
                w2)
           | (Some apiErr, w2) \<Rightarrow>
               (case errorHandler p s apiErr r w2 of
                  (evs, w3) \<Rightarrow>
                    (Returned (),
                     ask_events path (Method r) 0 (Suc (length pre)) @
                       Ev_HandleAPIRequest (length pre) apiId path (Method r) # evs,
                     w3)))"
      using m
      by (simp add: mw ms middleware_scan_declined [OF d] middleware_handle_def ask_events_snoc
               split: prod.splits option.splits)
    have "queried (fst (snd (middleware p s h r w))) = [0..<Suc (length pre)]"
      using queried_ask_events [of path "Method r" 0 "Suc (length pre)"]
      by (auto simp: eq queried_append simp del: upt_Suc
               dest: queried_errorHandler split: prod.splits option.splits)
    with eq show ?thesis by blast
  qed
  have failed: "middleware p s h r w =
          (case errorHandler p s err r w1 of
             (evs, w2) \<Rightarrow> (Returned (), ask_events path (Method r) 0 (Suc (length pre)) @ evs, w2)) \<and>
        queried (fst (snd (middleware p s h r w))) = [0..<Suc (length pre)]"
    if ms: "RecipeModules s = pre @ m # post" and d: "declined path (Method r) pre w"
      and m: "ReturnAPIIdIfCanHandleRequest m path (Method r) (asked path (Method r) pre w) =
          ((x, Some err), w1)"
    for pre m post x err w1
  proof -
    have eq: "middleware p s h r w =
          (case errorHandler p s err r w1 of
             (evs, w2) \<Rightarrow> (Returned (), ask_events path (Method r) 0 (Suc (length pre)) @ evs, w2))"
      using m
      by (simp add: mw ms middleware_scan_declined [OF d] ask_events_snoc
               split: prod.splits option.splits)
    have "queried (fst (snd (middleware p s h r w))) = [0..<Suc (length pre)]"
      using queried_ask_events [of path "Method r" 0 "Suc (length pre)"]
      by (auto simp: eq queried_append simp del: upt_Suc
               dest: queried_errorHandler split: prod.splits option.splits)
    with eq show ?thesis by blast
  qed
  have nobody: "middleware p s h r w =
          (Returned (),
           ask_events path (Method r) 0 (length (RecipeModules s)) @ [Ev_theirHandler r],
           h r (asked path (Method r) (RecipeModules s) w))"
    if d: "declined path (Method r) (RecipeModules s) w"
    using middleware_scan_declined [OF d, of p s h r 0 "[]"]
    by (simp add: mw callTheirHandler_def)
  show ?thesis using claimed failed nobody by blast
qed


theorem middleware_without_RID_witness:
  "middleware ex_pkg
     (ex_superTokens [ex_silent ''a'', ex_claiming ''b'' ''info'', ex_claiming ''c'' ''never''])
     ex_theirHandler (ex_request ''/auth/sessioninfo'' []) [] =
   (Returned (),
    [Ev_ReturnAPIIdIfCanHandleRequest 0 (NormalisedURLPath ''/auth/sessioninfo'') ''GET'',
     Ev_ReturnAPIIdIfCanHandleRequest 1 (NormalisedURLPath ''/auth/sessioninfo'') ''GET'',
     Ev_HandleAPIRequest 1 ''info'' (NormalisedURLPath ''/auth/sessioninfo'') ''GET''],
    [''a asked'', ''b asked'', ''b handles info'']) \<and>
   queried (fst (snd (middleware ex_pkg
     (ex_superTokens [ex_silent ''a'', ex_claiming ''b'' ''info'', ex_claiming ''c'' ''never''])
     ex_theirHandler (ex_request ''/auth/sessioninfo'' []) []))) = [0, 1] \<and>
   middleware ex_pkg
     (ex_superTokens [ex_silent ''a'', ex_failing ''b'', ex_claiming ''c'' ''never''])
     ex_theirHandler (ex_request ''/auth/sessioninfo'' []) [] =
   (Returned (),
    [Ev_ReturnAPIIdIfCanHandleRequest 0 (NormalisedURLPath ''/auth/sessioninfo'') ''GET'',
     Ev_ReturnAPIIdIfCanHandleRequest 1 (NormalisedURLPath ''/auth/sessioninfo'') ''GET'',
     Ev_OnGeneralError (ErrorString ''b failed'')],
    [''a asked'', ''b asked'', ''500 b failed'']) \<and>
   middleware ex_pkg (ex_superTokens [ex_silent ''a'', ex_silent ''b''])
     ex_theirHandler (ex_request ''/auth/sessioninfo'' []) [] =
   (Returned (),
    [Ev_ReturnAPIIdIfCanHandleRequest 0 (NormalisedURLPath ''/auth/sessioninfo'') ''GET'',
     Ev_ReturnAPIIdIfCanHandleRequest 1 (NormalisedURLPath ''/auth/sessioninfo'') ''GET'',
     Ev_theirHandler (ex_request ''/auth/sessioninfo'' [])],
    [''a asked'', ''b asked'', ''fallback''])"
proof -
  let ?r = "ex_request ''/auth/sessioninfo'' []"
  let ?u = "NormalisedURLPath ''/auth/sessioninfo''"
  have norm: "NewNormalisedURLPath ex_pkg (URL_Path ?r) = (Some ?u, None)"
    by (simp add: ex_defs)
  have path: "\<And>ms. ?u = AppendPath ex_pkg (APIGatewayPath (AppInfo (ex_superTokens ms))) ?u"
    by (simp add: ex_defs)
  have inside: "\<And>ms. prefix (GetAsStringDangerous ex_pkg (APIBasePath (AppInfo (ex_superTokens ms))))
                   (GetAsStringDangerous ex_pkg ?u)"
    by (simp add: ex_defs)
  have norid: "getRIDFromRequest ex_pkg ?r = []"
    by (simp add: ex_defs)
  note T = middleware_without_RID [where h = ex_theirHandler and w = "[]", OF norm path inside norid]
  have a: "RecipeModules (ex_superTokens [ex_silent ''a'', ex_claiming ''b'' ''info'', ex_claiming ''c'' ''never'']) =
           [ex_silent ''a''] @ ex_claiming ''b'' ''info'' # [ex_claiming ''c'' ''never''] \<and>
        declined ?u (Method ?r) [ex_silent ''a''] [] \<and>
        ReturnAPIIdIfCanHandleRequest (ex_claiming ''b'' ''info'') ?u (Method ?r)
          (asked ?u (Method ?r) [ex_silent ''a''] []) = ((Some ''info'', None), [''a asked'', ''b asked''])"
    by (simp add: ex_defs)
  have b: "RecipeModules (ex_superTokens [ex_silent ''a'', ex_failing ''b'', ex_claiming ''c'' ''never'']) =
           [ex_silent ''a''] @ ex_failing ''b'' # [ex_claiming ''c'' ''never''] \<and>
        declined ?u (Method ?r) [ex_silent ''a''] [] \<and>
        ReturnAPIIdIfCanHandleRequest (ex_failing ''b'') ?u (Method ?r)
          (asked ?u (Method ?r) [ex_silent ''a''] []) =
          ((None, Some (ErrorString ''b failed'')), [''a asked'', ''b asked''])"
    by (simp add: ex_defs)
  have c: "declined ?u (Method ?r) (RecipeModules (ex_superTokens [ex_silent ''a'', ex_silent ''b''])) []"
    by (simp add: ex_defs)
  show ?thesis
    using T [THEN conjunct1, rule_format, OF a]
      T [THEN conjunct2, THEN conjunct1, rule_format, OF b]
      T [THEN conjunct2, THEN conjunct2, rule_format, OF c]
    by (simp add: ex_defs ask_events_def errorHandler_def callOnGeneralError_def)
qed

subsection \<open>Routing with a RID\<close>

lemma middleware_match_none:
  "(\<forall>x\<in>set ms. GetRecipeID x \<noteq> rid) \<Longrightarrow> middleware_match rid i ms = None"
  by (induction ms arbitrary: i) simp_all

lemma middleware_match_first:
  "(\<forall>x\<in>set pre. GetRecipeID x \<noteq> rid) \<Longrightarrow> GetRecipeID m = rid \<Longrightarrow>
   middleware_match rid i (pre @ m # post) = Some (i + length pre, m)"
  by (induction pre arbitrary: i) simp_all

lemma middleware_RID_branch:
  assumes "NewNormalisedURLPath p (URL_Path r) = (Some u, None)"
    and "path = AppendPath p (APIGatewayPath (AppInfo s)) u"
    and "prefix (GetAsStringDangerous p (APIBasePath (AppInfo s))) (GetAsStringDangerous p path)"
    and "getRIDFromRequest p r \<noteq> []"
  shows "middleware p s h r w =
     (case middleware_rid p s h r path (Method r) (getRIDFromRequest p r) w of
        (evs, w') \<Rightarrow> (Returned (), evs, w'))"
  using assms by (simp add: middleware_def)

text \<open>
  C2. For a request inside the API base path that carries a RID: when no registered
  module has that recipe id, the fallback handler is called and nothing else. Otherwise
  the first module with that recipe id is the only module asked: its error goes to the
  error chain, no API id means the fallback handler, and an API id means
  \<open>HandleAPIRequest\<close> of the same module with that id, an error of which goes to the
  error chain.
\<close>

theorem middleware_with_RID:
  assumes norm: "NewNormalisedURLPath p (URL_Path r) = (Some u, None)"
    and path: "path = AppendPath p (APIGatewayPath (AppInfo s)) u"
    and inside: "prefix (GetAsStringDangerous p (APIBasePath (AppInfo s)))
                        (GetAsStringDangerous p path)"
    and rid: "getRIDFromRequest p r \<noteq> []"
  shows
    "((\<forall>x\<in>set (RecipeModules s). GetRecipeID x \<noteq> getRIDFromRequest p r) \<longrightarrow>
        middleware p s h r w = (Returned (), [Ev_theirHandler r], h r w)) \<and>
     (\<forall>pre m post.
        RecipeModules s = pre @ m # post \<and>
        (\<forall>x\<in>set pre. GetRecipeID x \<noteq> getRIDFromRequest p r) \<and>
        GetRecipeID m = getRIDFromRequest p r \<longrightarrow>
        middleware p s h r w =
          (case ReturnAPIIdIfCanHandleRequest m path (Method r) w of
             ((x, Some err), w1) \<Rightarrow>
               (case errorHandler p s err r w1 of
                  (evs, w2) \<Rightarrow>
                    (Returned (),
                     Ev_ReturnAPIIdIfCanHandleRequest (length pre) path (Method r) # evs, w2))
           | ((None, None), w1) \<Rightarrow>
               (Returned (),
                [Ev_ReturnAPIIdIfCanHandleRequest (length pre) path (Method r), Ev_theirHandler r],
                h r w1)
           | ((Some apiId, None), w1) \<Rightarrow>
               (case HandleAPIRequest m apiId r h path (Method r) w1 of
                  (None, w2) \<Rightarrow>
                    (Returned (),
                     [Ev_ReturnAPIIdIfCanHandleRequest (length pre) path (Method r),
                      Ev_HandleAPIRequest (length pre) apiId path (Method r)],
                     w2)
                | (Some apiErr, w2) \<Rightarrow>
                    (case errorHandler p s apiErr r w2 of
                       (evs, w3) \<Rightarrow>
                         (Returned (),
                          Ev_ReturnAPIIdIfCanHandleRequest (length pre) path (Method r) #
                            Ev_HandleAPIRequest (length pre) apiId path (Method r) # evs,
                          w3)))) \<and>
        queried (fst (snd (middleware p s h r w))) = [length pre])"
proof -
  note mw = middleware_RID_branch [OF norm path inside rid, of h w]
  have unknown: "middleware p s h r w = (Returned (), [Ev_theirHandler r], h r w)"
    if "\<forall>x\<in>set (RecipeModules s). GetRecipeID x \<noteq> getRIDFromRequest p r"
    using middleware_match_none [OF that, of 0]
    by (simp add: mw middleware_rid_def callTheirHandler_def)
  have known: "middleware p s h r w =
          (case ReturnAPIIdIfCanHandleRequest m path (Method r) w of
             ((x, Some err), w1) \<Rightarrow>
               (case errorHandler p s err r w1 of
                  (evs, w2) \<Rightarrow>
                    (Returned (),
                     Ev_ReturnAPIIdIfCanHandleRequest (length pre) path (Method r) # evs, w2))
           | ((None, None), w1) \<Rightarrow>
               (Returned (),
                [Ev_ReturnAPIIdIfCanHandleRequest (length pre) path (Method r), Ev_theirHandler r],
                h r w1)
           | ((Some apiId, None), w1) \<Rightarrow>
               (case HandleAPIRequest m apiId r h path (Method r) w1 of
                  (None, w2) \<Rightarrow>
                    (Returned (),
                     [Ev_ReturnAPIIdIfCanHandleRequest (length pre) path (Method r),
                      Ev_HandleAPIRequest (length pre) apiId path (Method r)],
                     w2)
                | (Some apiErr, w2) \<Rightarrow>
                    (case errorHandler p s apiErr r w2 of
                       (evs, w3) \<Rightarrow>
                         (Returned (),
                          Ev_ReturnAPIIdIfCanHandleRequest (length pre) path (Method r) #
                            Ev_HandleAPIRequest (length pre) apiId path (Method r) # evs,
                          w3)))) \<and>
        queried (fst (snd (middleware p s h r w))) = [length pre]"
    if ms: "RecipeModules s = pre @ m # post"
      and others: "\<forall>x\<in>set pre. GetRecipeID x \<noteq> getRIDFromRequest p r"
      and mine: "GetRecipeID m = getRIDFromRequest p r"
    for pre m post
  proof -
    have found: "middleware_match (getRIDFromRequest p r) 0 (RecipeModules s) = Some (length pre, m)"
      using middleware_match_first [OF others mine, of 0 post] by (simp add: ms)
    have eq: "middleware p s h r w =
          (case ReturnAPIIdIfCanHandleRequest m path (Method r) w of
             ((x, Some err), w1) \<Rightarrow>
               (case errorHandler p s err r w1 of
                  (evs, w2) \<Rightarrow>
                    (Returned (),
                     Ev_ReturnAPIIdIfCanHandleRequest (length pre) path (Method r) # evs, w2))
           | ((None, None), w1) \<Rightarrow>
               (Returned (),
                [Ev_ReturnAPIIdIfCanHandleRequest (length pre) path (Method r), Ev_theirHandler r],
                h r w1)
           | ((Some apiId, None), w1) \<Rightarrow>
               (case HandleAPIRequest m apiId r h path (Method r) w1 of
                  (None, w2) \<Rightarrow>
                    (Returned (),
                     [Ev_ReturnAPIIdIfCanHandleRequest (length pre) path (Method r),
                      Ev_HandleAPIRequest (length pre) apiId path (Method r)],
                     w2)
                | (Some apiErr, w2) \<Rightarrow>
                    (case errorHandler p s apiErr r w2 of
                       (evs, w3) \<Rightarrow>
                         (Returned (),
                          Ev_ReturnAPIIdIfCanHandleRequest (length pre) path (Method r) #
                            Ev_HandleAPIRequest (length pre) apiId path (Method r) # evs,
                          w3))))"
      by (simp add: mw middleware_rid_def found middleware_handle_def callTheirHandler_def
               split: prod.splits option.splits)
    have "queried (fst (snd (middleware p s h r w))) = [length pre]"
      by (auto simp: eq dest: queried_errorHandler split: prod.splits option.splits)
    with eq show ?thesis by blast
  qed
  show ?thesis using unknown known by blast
qed

theorem middleware_with_RID_witness:
  "middleware ex_pkg (ex_superTokens [ex_claiming ''a'' ''one'', ex_claiming ''b'' ''two''])
     ex_theirHandler (ex_request ''/auth/sessioninfo'' [(''rid'', ''unknown-recipe'')]) [] =
   (Returned (),
    [Ev_theirHandler (ex_request ''/auth/sessioninfo'' [(''rid'', ''unknown-recipe'')])],
    [''fallback'']) \<and>
   middleware ex_pkg (ex_superTokens [ex_claiming ''a'' ''one'', ex_claiming ''b'' ''two''])
     ex_theirHandler (ex_request ''/auth/sessioninfo'' [(''rid'', ''b'')]) [] =
   (Returned (),
    [Ev_ReturnAPIIdIfCanHandleRequest 1 (NormalisedURLPath ''/auth/sessioninfo'') ''GET'',
     Ev_HandleAPIRequest 1 ''two'' (NormalisedURLPath ''/auth/sessioninfo'') ''GET''],
    [''b asked'', ''b handles two'']) \<and>
   queried (fst (snd (middleware ex_pkg
     (ex_superTokens [ex_claiming ''a'' ''one'', ex_claiming ''b'' ''two''])
     ex_theirHandler (ex_request ''/auth/sessioninfo'' [(''rid'', ''b'')]) []))) = [1] \<and>
   middleware ex_pkg (ex_superTokens [ex_claiming ''a'' ''one'', ex_silent ''b''])
     ex_theirHandler (ex_request ''/auth/sessioninfo'' [(''rid'', ''b'')]) [] =
   (Returned (),
    [Ev_ReturnAPIIdIfCanHandleRequest 1 (NormalisedURLPath ''/auth/sessioninfo'') ''GET'',
     Ev_theirHandler (ex_request ''/auth/sessioninfo'' [(''rid'', ''b'')])],
    [''b asked'', ''fallback'']) \<and>
   middleware ex_pkg (ex_superTokens [ex_claiming ''a'' ''one'', ex_failing ''b''])
     ex_theirHandler (ex_request ''/auth/sessioninfo'' [(''rid'', ''b'')]) [] =
   (Returned (),
    [Ev_ReturnAPIIdIfCanHandleRequest 1 (NormalisedURLPath ''/auth/sessioninfo'') ''GET'',
     Ev_OnGeneralError (ErrorString ''b failed'')],
    [''b asked'', ''500 b failed''])"
proof -
  let ?u = "NormalisedURLPath ''/auth/sessioninfo''"
  have norm: "\<And>hdr. NewNormalisedURLPath ex_pkg (URL_Path (ex_request ''/auth/sessioninfo'' hdr)) =
      (Some ?u, None)"
    by (simp add: ex_defs)
  have path: "\<And>ms. ?u = AppendPath ex_pkg (APIGatewayPath (AppInfo (ex_superTokens ms))) ?u"
    by (simp add: ex_defs)
  have inside: "\<And>ms. prefix (GetAsStringDangerous ex_pkg (APIBasePath (AppInfo (ex_superTokens ms))))
                   (GetAsStringDangerous ex_pkg ?u)"
    by (simp add: ex_defs)
  have rid: "\<And>v. v \<noteq> [] \<Longrightarrow>
      getRIDFromRequest ex_pkg (ex_request ''/auth/sessioninfo'' [(''rid'', v)]) \<noteq> []"
    by (simp add: ex_defs)
  have rid1: "''unknown-recipe'' \<noteq> []" and rid2: "''b'' \<noteq> []" by simp_all
  note T1 = middleware_with_RID [where h = ex_theirHandler and w = "[]",
      OF norm path inside rid [OF rid1]]
  note T2 = middleware_with_RID [where h = ex_theirHandler and w = "[]",
      OF norm path inside rid [OF rid2]]
  have a: "\<forall>x\<in>set (RecipeModules (ex_superTokens [ex_claiming ''a'' ''one'', ex_claiming ''b'' ''two''])).
             GetRecipeID x \<noteq>
             getRIDFromRequest ex_pkg (ex_request ''/auth/sessioninfo'' [(''rid'', ''unknown-recipe'')])"
    by (simp add: ex_defs)
  have b: "\<And>m. GetRecipeID m = ''b'' \<Longrightarrow>
        RecipeModules (ex_superTokens [ex_claiming ''a'' ''one'', m]) =
           [ex_claiming ''a'' ''one''] @ m # [] \<and>
        (\<forall>x\<in>set [ex_claiming ''a'' ''one''].
           GetRecipeID x \<noteq> getRIDFromRequest ex_pkg (ex_request ''/auth/sessioninfo'' [(''rid'', ''b'')])) \<and>
        GetRecipeID m = getRIDFromRequest ex_pkg (ex_request ''/auth/sessioninfo'' [(''rid'', ''b'')])"
    by (simp add: ex_defs)
  have b1: "GetRecipeID (ex_claiming ''b'' ''two'') = ''b''"
    and b2: "GetRecipeID (ex_silent ''b'') = ''b''"
    and b3: "GetRecipeID (ex_failing ''b'') = ''b''"
    by (simp_all add: ex_defs)
  show ?thesis
    using T1 [THEN conjunct1, THEN mp, OF a]
      T2 [THEN conjunct2, THEN spec, THEN spec, THEN spec, THEN mp, OF b [OF b1]]
      T2 [THEN conjunct2, THEN spec, THEN spec, THEN spec, THEN mp, OF b [OF b2]]
      T2 [THEN conjunct2, THEN spec, THEN spec, THEN spec, THEN mp, OF b [OF b3]]
    by (simp add: ex_defs errorHandler_def callOnGeneralError_def)
qed

subsection \<open>The chain of error hooks\<close>

lemma errorHandler_loop_unhandled:
  "unhandled err req pre w \<Longrightarrow>
   errorHandler_loop s err req i (pre @ rest) w =
     (case errorHandler_loop s err req (i + length pre) rest (after_hooks err req pre w) of
        (evs, w') \<Rightarrow> (hook_events err i pre @ evs, w'))"
proof (induction pre arbitrary: i w)
  case Nil
  then show ?case by simp
next
  case (Cons m pre)
  show ?case
  proof (cases "HandleError m")
    case None
    then have "unhandled err req pre w" using Cons.prems by simp
    from Cons.IH [OF this, of "Suc i"] None show ?thesis by simp
  next
    case (Some hook)
    then obtain w1 where hk: "hook err req w = ((False, None), w1)"
      using Cons.prems by (cases "hook err req w") auto
    have "unhandled err req pre w1" using Cons.prems Some hk by simp
    from Cons.IH [OF this, of "Suc i"] Some hk show ?thesis
      by (simp split: prod.splits)
  qed
qed

text \<open>
  C4. For an error that is not a \<open>BadInputError\<close>, the error hooks are called in the
  order of registration, each with the error \<open>errorHandler\<close> was given. The first hook
  that returns an error \<open>err2\<close> ends the chain: the general error handler is called with
  \<open>err2\<close> and no later hook is. The first hook that returns \<open>(true, nil)\<close> ends the chain
  with no further call. When every hook returns \<open>(false, nil)\<close> the general error
  handler is called with the original error.
\<close>

theorem errorHandler_hooks:
  assumes "\<not> errors_As_BadInputError err"
  shows
    "(\<forall>pre m post hook handled err2 w1.
        RecipeModules s = pre @ m # post \<and> unhandled err req pre w \<and>
        HandleError m = Some hook \<and>
        hook err req (after_hooks err req pre w) = ((handled, Some err2), w1) \<longrightarrow>
        errorHandler p s err req w =
          (hook_events err 0 pre @ [Ev_HandleError (length pre) err, Ev_OnGeneralError err2],
           OnGeneralError s err2 req w1)) \<and>
     (\<forall>pre m post hook w1.
        RecipeModules s = pre @ m # post \<and> unhandled err req pre w \<and>
        HandleError m = Some hook \<and>
        hook err req (after_hooks err req pre w) = ((True, None), w1) \<longrightarrow>
        errorHandler p s err req w =
          (hook_events err 0 pre @ [Ev_HandleError (length pre) err], w1)) \<and>
     (unhandled err req (RecipeModules s) w \<longrightarrow>
        errorHandler p s err req w =
          (hook_events err 0 (RecipeModules s) @ [Ev_OnGeneralError err],
           OnGeneralError s err req (after_hooks err req (RecipeModules s) w)))"
proof -
  have eh: "errorHandler p s err req w = errorHandler_loop s err req 0 (RecipeModules s) w"
    using assms by (simp add: errorHandler_def)
  have escalated: "errorHandler p s err req w =
          (hook_events err 0 pre @ [Ev_HandleError (length pre) err, Ev_OnGeneralError err2],
           OnGeneralError s err2 req w1)"
    if "RecipeModules s = pre @ m # post" and u: "unhandled err req pre w"
      and "HandleError m = Some hook"
      and "hook err req (after_hooks err req pre w) = ((handled, Some err2), w1)"
    for pre m post hook handled err2 w1
    using that by (simp add: eh errorHandler_loop_unhandled [OF u] callOnGeneralError_def)
  have handled: "errorHandler p s err req w =
          (hook_events err 0 pre @ [Ev_HandleError (length pre) err], w1)"
    if "RecipeModules s = pre @ m # post" and u: "unhandled err req pre w"
      and "HandleError m = Some hook"
      and "hook err req (after_hooks err req pre w) = ((True, None), w1)"
    for pre m post hook w1
    using that by (simp add: eh errorHandler_loop_unhandled [OF u])
  have nobody: "errorHandler p s err req w =
          (hook_events err 0 (RecipeModules s) @ [Ev_OnGeneralError err],
           OnGeneralError s err req (after_hooks err req (RecipeModules s) w))"
    if u: "unhandled err req (RecipeModules s) w"
    using errorHandler_loop_unhandled [OF u, of s 0 "[]"]
    by (simp add: eh callOnGeneralError_def)
  show ?thesis using escalated handled nobody by blast
qed

theorem errorHandler_hooks_witness:
  "\<not> errors_As_BadInputError (ErrorString ''session expired'') \<and>
   errorHandler ex_pkg
     (ex_superTokens [ex_module ''a'' (\<lambda>path. (None, None)) None (Some (False, None)),
                      ex_silent ''b'',
                      ex_module ''c'' (\<lambda>path. (None, None)) None (Some (True, Some (ErrorString ''c broke''))),
                      ex_module ''d'' (\<lambda>path. (None, None)) None (Some (True, None))])
     (ErrorString ''session expired'') (ex_request ''/auth/refresh'' []) [] =
   ([Ev_HandleError 0 (ErrorString ''session expired''),
     Ev_HandleError 2 (ErrorString ''session expired''),
     Ev_OnGeneralError (ErrorString ''c broke'')],
    [''a hook'', ''c hook'', ''500 c broke'']) \<and>
   errorHandler ex_pkg
     (ex_superTokens [ex_module ''a'' (\<lambda>path. (None, None)) None (Some (False, None)),
                      ex_silent ''b'',
                      ex_module ''c'' (\<lambda>path. (None, None)) None (Some (True, None)),
                      ex_module ''d'' (\<lambda>path. (None, None)) None (Some (True, None))])
     (ErrorString ''session expired'') (ex_request ''/auth/refresh'' []) [] =
   ([Ev_HandleError 0 (ErrorString ''session expired''),
     Ev_HandleError 2 (ErrorString ''session expired'')],
    [''a hook'', ''c hook'']) \<and>
   errorHandler ex_pkg
     (ex_superTokens [ex_module ''a'' (\<lambda>path. (None, None)) None (Some (False, None)),
                      ex_silent ''b''])
     (ErrorString ''session expired'') (ex_request ''/auth/refresh'' []) [] =
   ([Ev_HandleError 0 (ErrorString ''session expired''),
     Ev_OnGeneralError (ErrorString ''session expired'')],
    [''a hook'', ''500 session expired''])"
proof -
  let ?e = "ErrorString ''session expired''"
  let ?r = "ex_request ''/auth/refresh'' []"
  let ?a = "ex_module ''a'' (\<lambda>path. (None, None)) None (Some (False, None))"
  let ?c1 = "ex_module ''c'' (\<lambda>path. (None, None)) None (Some (True, Some (ErrorString ''c broke'')))"
  let ?c2 = "ex_module ''c'' (\<lambda>path. (None, None)) None (Some (True, None))"
  let ?d = "ex_module ''d'' (\<lambda>path. (None, None)) None (Some (True, None))"
  have ne: "\<not> errors_As_BadInputError ?e" by simp
  note T = errorHandler_hooks [OF ne, where p = ex_pkg and req = ?r and w = "[]"]
  have a: "RecipeModules (ex_superTokens [?a, ex_silent ''b'', ?c1, ?d]) =
             [?a, ex_silent ''b''] @ ?c1 # [?d] \<and>
           unhandled ?e ?r [?a, ex_silent ''b''] [] \<and>
           HandleError ?c1 = Some (\<lambda>err req w. ((True, Some (ErrorString ''c broke'')), w @ [''c hook''])) \<and>
           (\<lambda>err req w. ((True, Some (ErrorString ''c broke'')), w @ [''c hook''])) ?e ?r
              (after_hooks ?e ?r [?a, ex_silent ''b''] []) =
             ((True, Some (ErrorString ''c broke'')), [''a hook'', ''c hook''])"
    by (simp add: ex_defs)
  have b: "RecipeModules (ex_superTokens [?a, ex_silent ''b'', ?c2, ?d]) =
             [?a, ex_silent ''b''] @ ?c2 # [?d] \<and>
           unhandled ?e ?r [?a, ex_silent ''b''] [] \<and>
           HandleError ?c2 = Some (\<lambda>err req w. ((True, None), w @ [''c hook''])) \<and>
           (\<lambda>err req w. ((True, None), w @ [''c hook''])) ?e ?r
              (after_hooks ?e ?r [?a, ex_silent ''b''] []) =
             ((True, None), [''a hook'', ''c hook''])"
    by (simp add: ex_defs)
  have c: "unhandled ?e ?r (RecipeModules (ex_superTokens [?a, ex_silent ''b''])) []"
    by (simp add: ex_defs)
  show ?thesis
    using T [THEN conjunct1, rule_format, OF a]
      T [THEN conjunct2, THEN conjunct1, rule_format, OF b]
      T [THEN conjunct2, THEN conjunct2, rule_format, OF c]
    by (simp add: ex_defs)
qed

subsection \<open>CORS headers\<close>

lemma keys_fold_update:
  "fst ` set (fold (\<lambda>header. AList.update header True) hs al) = set hs \<union> fst ` set al"
proof (induction hs arbitrary: al)
  case Nil
  show ?case by simp
next
  case (Cons h hs)
  have "fst ` set (fold (\<lambda>header. AList.update header True) (h # hs) al) =
        set hs \<union> fst ` set (AList.update h True al)"
    using Cons [of "AList.update h True al"] by simp
  also have "\<dots> = set (h # hs) \<union> fst ` set al"
    unfolding dom_update by auto
  finally show ?case .
qed

lemma distinct_fold_update:
  "distinct (map fst al) \<Longrightarrow>
   distinct (map fst (fold (\<lambda>header. AList.update header True) hs al))"
  by (induction hs arbitrary: al) (simp_all add: distinct_update)

lemma keys_recipes:
  "fst ` set (fold (\<lambda>recipe headerMap.
       fold (\<lambda>header. AList.update header True) (GetAllCORSHeaders recipe) headerMap) ms al) =
   (\<Union>m\<in>set ms. set (GetAllCORSHeaders m)) \<union> fst ` set al"
proof (induction ms arbitrary: al)
  case Nil
  show ?case by simp
next
  case (Cons m ms)
  let ?al = "fold (\<lambda>header. AList.update header True) (GetAllCORSHeaders m) al"
  have "fst ` set (fold (\<lambda>recipe headerMap.
       fold (\<lambda>header. AList.update header True) (GetAllCORSHeaders recipe) headerMap) (m # ms) al) =
        (\<Union>m\<in>set ms. set (GetAllCORSHeaders m)) \<union> fst ` set ?al"
    using Cons [of ?al] by simp
  also have "\<dots> = (\<Union>m\<in>set (m # ms). set (GetAllCORSHeaders m)) \<union> fst ` set al"
    unfolding keys_fold_update by auto
  finally show ?case .
qed

lemma distinct_recipes:
  "distinct (map fst al) \<Longrightarrow>
   distinct (map fst (fold (\<lambda>recipe headerMap.
       fold (\<lambda>header. AList.update header True) (GetAllCORSHeaders recipe) headerMap) ms al))"
  by (induction ms arbitrary: al) (simp_all add: distinct_fold_update)

lemma headerMap_keys:
  "set (map fst (getAllCORSHeaders_headerMap p s)) =
   {HeaderRID p, HeaderFDI p} \<union> (\<Union>m\<in>set (RecipeModules s). set (GetAllCORSHeaders m))"
  unfolding getAllCORSHeaders_headerMap_def set_map keys_recipes dom_update by auto

lemma headerMap_distinct: "distinct (map fst (getAllCORSHeaders_headerMap p s))"
  unfolding getAllCORSHeaders_headerMap_def
  by (intro distinct_recipes distinct_update) simp

text \<open>
  C8. \<open>getAllCORSHeaders\<close> always returns, and every slice it can return has no
  duplicates, contains the RID header and the version header, and has as elements
  exactly these two headers and the headers declared by the registered modules.
\<close>

theorem getAllCORSHeaders_union:
  "(\<exists>headers. getAllCORSHeaders p s headers) \<and>
   (\<forall>headers. getAllCORSHeaders p s headers \<longrightarrow>
      distinct headers \<and> HeaderRID p \<in> set headers \<and> HeaderFDI p \<in> set headers \<and>
      set headers =
        {HeaderRID p, HeaderFDI p} \<union> (\<Union>m\<in>set (RecipeModules s). set (GetAllCORSHeaders m)))"
proof (intro conjI allI impI)
  show "\<exists>headers. getAllCORSHeaders p s headers"
    unfolding getAllCORSHeaders_def by blast
next
  fix headers
  assume h: "getAllCORSHeaders p s headers"
  then have m: "mset headers = mset (map fst (getAllCORSHeaders_headerMap p s))"
    by (simp add: getAllCORSHeaders_def)
  from m have st: "set headers = set (map fst (getAllCORSHeaders_headerMap p s))"
    by (rule mset_eq_setD)
  show "distinct headers"
    using m headerMap_distinct [of p s] by (metis mset_eq_imp_distinct_iff)
  show "HeaderRID p \<in> set headers" and "HeaderFDI p \<in> set headers"
    unfolding st headerMap_keys by simp_all
  show "set headers =
        {HeaderRID p, HeaderFDI p} \<union> (\<Union>m\<in>set (RecipeModules s). set (GetAllCORSHeaders m))"
    unfolding st headerMap_keys ..
qed

theorem getAllCORSHeaders_union_witness:
  "getAllCORSHeaders ex_pkg (ex_superTokens [ex_silent ''a'', ex_silent ''rid'', ex_silent ''a''])
     [''a-header'', ''fdi-version'', ''rid-header'', ''rid''] \<and>
   distinct [''a-header'', ''fdi-version'', ''rid-header'', ''rid''] \<and>
   set [''a-header'', ''fdi-version'', ''rid-header'', ''rid''] =
     {HeaderRID ex_pkg, HeaderFDI ex_pkg} \<union>
     (\<Union>m\<in>set (RecipeModules (ex_superTokens [ex_silent ''a'', ex_silent ''rid'', ex_silent ''a''])).
        set (GetAllCORSHeaders m))"
proof -
  have g: "getAllCORSHeaders ex_pkg (ex_superTokens [ex_silent ''a'', ex_silent ''rid'', ex_silent ''a''])
     [''a-header'', ''fdi-version'', ''rid-header'', ''rid'']"
    by (simp add: getAllCORSHeaders_def getAllCORSHeaders_headerMap_def ex_defs)
  from g getAllCORSHeaders_union [of ex_pkg
      "ex_superTokens [ex_silent ''a'', ex_silent ''rid'', ex_silent ''a'']",
      THEN conjunct2, THEN spec, THEN mp, OF g]
  show ?thesis by blast
qed

subsection \<open>The session-refresh API\<close>

text \<open>
  C7. Without an implementation of \<open>RefreshPOST\<close> (a nil pointer, or a pointer to a nil
  function) \<open>HandleRefreshAPI\<close> calls the other handler and nothing else, and returns
  nil. With one, it calls it with the options and the user context made from the
  request; an error of it is returned as it is, with no response written by the
  handler; and without error \<open>Send200Response\<close> is called with a nil body and its result
  returned.
\<close>

theorem HandleRefreshAPI_contract:
  "(RefreshPOST apiImplementation = None \<or> RefreshPOST apiImplementation = Some None \<longrightarrow>
      HandleRefreshAPI sp apiImplementation options w =
        (None, [Ev_OtherHandler (Req options)], OtherHandler options (Req options) w)) \<and>
   (\<forall>refreshPOST err w1.
      RefreshPOST apiImplementation = Some (Some refreshPOST) \<and>
      refreshPOST options (MakeDefaultUserContextFromAPI sp (Req options)) w = (Some err, w1) \<longrightarrow>
      HandleRefreshAPI sp apiImplementation options w =
        (Some err,
         [Ev_RefreshPOST (Req options) (MakeDefaultUserContextFromAPI sp (Req options))], w1)) \<and>
   (\<forall>refreshPOST w1.
      RefreshPOST apiImplementation = Some (Some refreshPOST) \<and>
      refreshPOST options (MakeDefaultUserContextFromAPI sp (Req options)) w = (None, w1) \<longrightarrow>
      HandleRefreshAPI sp apiImplementation options w =
        (fst (Send200Response sp INil w1),
         [Ev_RefreshPOST (Req options) (MakeDefaultUserContextFromAPI sp (Req options)),
          Ev_Send200Response INil],
         snd (Send200Response sp INil w1)))"
  by (auto simp: HandleRefreshAPI_def Let_def split: prod.splits)

theorem HandleRefreshAPI_contract_witness:
  "HandleRefreshAPI ex_session_pkg (ex_api None) ex_options [] =
     (None, [Ev_OtherHandler (ex_request ''/auth/session/refresh'' [])], [''fallback'']) \<and>
   HandleRefreshAPI ex_session_pkg (ex_api (Some None)) ex_options [] =
     (None, [Ev_OtherHandler (ex_request ''/auth/session/refresh'' [])], [''fallback'']) \<and>
   HandleRefreshAPI ex_session_pkg
     (ex_api (Some (Some (ex_refreshPOST (Some (ErrorString ''unauthorised'')))))) ex_options [] =
     (Some (ErrorString ''unauthorised''),
      [Ev_RefreshPOST (ex_request ''/auth/session/refresh'' []) ''/auth/session/refresh''],
      [''refresh for /auth/session/refresh'']) \<and>
   HandleRefreshAPI ex_session_pkg (ex_api (Some (Some (ex_refreshPOST None)))) ex_options [] =
     (None,
      [Ev_RefreshPOST (ex_request ''/auth/session/refresh'' []) ''/auth/session/refresh'',
       Ev_Send200Response INil],
      [''refresh for /auth/session/refresh'', ''200''])"
proof -
  note T = HandleRefreshAPI_contract [where sp = ex_session_pkg and options = ex_options and w = "[]"]
  have a: "RefreshPOST (ex_api None) = None \<or> RefreshPOST (ex_api None) = Some None"
    and b: "RefreshPOST (ex_api (Some None)) = None \<or> RefreshPOST (ex_api (Some None)) = Some None"
    by (simp_all add: ex_api_def)
  have c: "RefreshPOST (ex_api (Some (Some (ex_refreshPOST (Some (ErrorString ''unauthorised'')))))) =
             Some (Some (ex_refreshPOST (Some (ErrorString ''unauthorised'')))) \<and>
           ex_refreshPOST (Some (ErrorString ''unauthorised'')) ex_options
             (MakeDefaultUserContextFromAPI ex_session_pkg (Req ex_options)) [] =
             (Some (ErrorString ''unauthorised''), [''refresh for /auth/session/refresh''])"
    by (simp add: ex_api_def ex_refreshPOST_def ex_session_pkg_def ex_options_def ex_request_def)
  have d: "RefreshPOST (ex_api (Some (Some (ex_refreshPOST None)))) =
             Some (Some (ex_refreshPOST None)) \<and>
           ex_refreshPOST None ex_options
             (MakeDefaultUserContextFromAPI ex_session_pkg (Req ex_options)) [] =
             (None, [''refresh for /auth/session/refresh''])"
    by (simp add: ex_api_def ex_refreshPOST_def ex_session_pkg_def ex_options_def ex_request_def)
  show ?thesis
    using T [THEN conjunct1, THEN mp, OF a] T [THEN conjunct1, THEN mp, OF b]
      T [THEN conjunct2, THEN conjunct1, rule_format, OF c]
      T [THEN conjunct2, THEN conjunct2, rule_format, OF d]
    by (simp add: ex_session_pkg_def ex_options_def ex_theirHandler_def ex_request_def)
qed

subsection \<open>Initialisation\<close>

lemma supertokensInit_hosts_error:
  "supertokensInit_hosts ip hs hosts = Returned (Inl err) \<Longrightarrow>
   \<exists>h\<in>set hs. snd (NewNormalisedURLDomain ip h False) = Some err"
  by (induction hs arbitrary: hosts) (auto split: prod.splits option.splits)

lemma supertokensInit_recipes_error:
  "supertokensInit_recipes appInfo fs modules w = (Returned (Inl err), w') \<Longrightarrow>
   \<exists>elem\<in>set fs. \<exists>w0. snd (fst (elem appInfo w0)) = Some err"
proof (induction fs arbitrary: modules w)
  case Nil
  then show ?case by simp
next
  case (Cons elem fs)
  show ?case
  proof (cases "elem appInfo w")
    case (Pair res w1)
    obtain recipeModule e where res: "res = (recipeModule, e)" by (cases res)
    show ?thesis
    proof (cases e)
      case (Some err')
      with Cons.prems Pair res have "err' = err" by (simp split: option.splits)
      with Pair res Some have "snd (fst (elem appInfo w)) = Some err" by simp
      then show ?thesis by auto
    next
      case None
      with Cons.prems Pair res obtain m where
        "supertokensInit_recipes appInfo fs (modules @ [m]) w1 = (Returned (Inl err), w')"
        by (cases recipeModule) (auto split: option.splits)
      from Cons.IH [OF this] show ?thesis by auto
    qed
  qed
qed

lemma supertokensInit_error_cases:
  assumes "supertokensInit ip config superTokensInstance w = (Returned (Some err), inst', w')"
  shows "superTokensInstance = None \<and> inst' = None \<and>
     (snd (NormaliseInputAppInfoOrThrowError ip (in_AppInfo config)) = Some err \<or>
      (\<exists>st. Supertokens config = Some st \<and>
         supertokensInit_hosts ip (strings_Split (ConnectionURI st) CHR '';'') [] = Returned (Inl err)) \<or>
      (RecipeList config = [] \<and>
       err = ErrorString ''please provide at least one recipe to the supertokens.init function call'') \<or>
      (\<exists>w1 w2. supertokensInit_recipes (fst (NormaliseInputAppInfoOrThrowError ip (in_AppInfo config)))
         (RecipeList config) [] w1 = (Returned (Inl err), w2)))"
  using assms unfolding supertokensInit_def Let_def
  by (auto split: if_splits prod.splits option.splits completion.splits sum.splits)
lemma supertokensInit_assigned_cases:
  assumes "supertokensInit ip config None w = (c, Some s', w')"
  shows "c = Returned None \<and>
     snd (NormaliseInputAppInfoOrThrowError ip (in_AppInfo config)) = None \<and>
     (\<forall>st. Supertokens config = Some st \<longrightarrow>
        (\<exists>hosts. supertokensInit_hosts ip (strings_Split (ConnectionURI st) CHR '';'') [] =
                    Returned (Inr hosts))) \<and>
     RecipeList config \<noteq> [] \<and>
     (\<exists>w1 w2. supertokensInit_recipes (fst (NormaliseInputAppInfoOrThrowError ip (in_AppInfo config)))
        (RecipeList config) [] w1 = (Returned (Inr (RecipeModules s')), w2))"
  using assms unfolding supertokensInit_def Let_def
  by (auto split: if_splits prod.splits option.splits completion.splits sum.splits) blast+

text \<open>
  C10. When \<open>supertokensInit\<close> returns an error, \<open>superTokensInstance\<close> is nil afterwards
  and \<open>getInstanceOrThrowError\<close> fails with the error of a missing initialisation; the
  error is that of the app info, of a host of the connection URI, of the empty recipe
  list or of a recipe factory. And when \<open>supertokensInit\<close> leaves an instance where there
  was none, it has returned nil, and the app info, every host and every recipe factory
  have succeeded on a recipe list that is not empty.
\<close>

theorem supertokensInit_error_keeps_instance_unset:
  "(\<forall>err inst' w'.
      supertokensInit ip config superTokensInstance w = (Returned (Some err), inst', w') \<longrightarrow>
      inst' = None \<and>
      getInstanceOrThrowError inst' =
        (None, Some (ErrorString
           ''initialisation not done. Did you forget to call the SuperTokens.init function?'')) \<and>
      (snd (NormaliseInputAppInfoOrThrowError ip (in_AppInfo config)) = Some err \<or>
       (\<exists>st. Supertokens config = Some st \<and>
          (\<exists>h\<in>set (strings_Split (ConnectionURI st) CHR '';'').
             snd (NewNormalisedURLDomain ip h False) = Some err)) \<or>
       (RecipeList config = [] \<and>
        err = ErrorString ''please provide at least one recipe to the supertokens.init function call'') \<or>
       (\<exists>elem\<in>set (RecipeList config). \<exists>w0.
          snd (fst (elem (fst (NormaliseInputAppInfoOrThrowError ip (in_AppInfo config))) w0)) =
            Some err))) \<and>
   (\<forall>c s' w'.
      supertokensInit ip config None w = (c, Some s', w') \<longrightarrow>
      c = Returned None \<and>
      snd (NormaliseInputAppInfoOrThrowError ip (in_AppInfo config)) = None \<and>
      (\<forall>st. Supertokens config = Some st \<longrightarrow>
         (\<exists>hosts. supertokensInit_hosts ip (strings_Split (ConnectionURI st) CHR '';'') [] =
                     Returned (Inr hosts))) \<and>
      RecipeList config \<noteq> [] \<and>
      (\<exists>w1 w2. supertokensInit_recipes (fst (NormaliseInputAppInfoOrThrowError ip (in_AppInfo config)))
         (RecipeList config) [] w1 = (Returned (Inr (RecipeModules s')), w2)))"
proof (intro conjI allI impI)
  fix err inst' w'
  assume r: "supertokensInit ip config superTokensInstance w = (Returned (Some err), inst', w')"
  note c = supertokensInit_error_cases [OF r]
  from c show "inst' = None" by simp
  from c show "getInstanceOrThrowError inst' =
        (None, Some (ErrorString
           ''initialisation not done. Did you forget to call the SuperTokens.init function?''))"
    by (simp add: getInstanceOrThrowError_def)
  from c show "snd (NormaliseInputAppInfoOrThrowError ip (in_AppInfo config)) = Some err \<or>
       (\<exists>st. Supertokens config = Some st \<and>
          (\<exists>h\<in>set (strings_Split (ConnectionURI st) CHR '';'').
             snd (NewNormalisedURLDomain ip h False) = Some err)) \<or>
       (RecipeList config = [] \<and>
        err = ErrorString ''please provide at least one recipe to the supertokens.init function call'') \<or>
       (\<exists>elem\<in>set (RecipeList config). \<exists>w0.
          snd (fst (elem (fst (NormaliseInputAppInfoOrThrowError ip (in_AppInfo config))) w0)) =
            Some err)"
    using supertokensInit_hosts_error [of ip _ "[]" err]
      supertokensInit_recipes_error [of _ "RecipeList config" "[]" _ err]
    by blast
next
  fix c s' w'
  assume r: "supertokensInit ip config None w = (c, Some s', w')"
  note a = supertokensInit_assigned_cases [OF r]
  from a show "c = Returned None" by simp
  from a show "snd (NormaliseInputAppInfoOrThrowError ip (in_AppInfo config)) = None" by simp
  from a show "RecipeList config \<noteq> []" by simp
  from a show "\<exists>w1 w2. supertokensInit_recipes (fst (NormaliseInputAppInfoOrThrowError ip (in_AppInfo config)))
         (RecipeList config) [] w1 = (Returned (Inr (RecipeModules s')), w2)" by blast
  fix st
  assume "Supertokens config = Some st"
  with a show "\<exists>hosts. supertokensInit_hosts ip (strings_Split (ConnectionURI st) CHR '';'') [] =
                     Returned (Inr hosts)" by blast
qed

theorem supertokensInit_error_keeps_instance_unset_witness:
  "supertokensInit ex_init_pkg (ex_config [] ''https://try.supertokens.io'' []) None [] =
     (Returned (Some (ErrorString ''please provide your apiDomain'')), None, []) \<and>
   supertokensInit ex_init_pkg
     (ex_config ''http://localhost:3001'' ''https://try.supertokens.io;localhost''
        [ex_factory (Some (ex_silent ''session'')) None]) None [] =
     (Returned (Some (ErrorString ''please provide a valid domain name'')), None, []) \<and>
   supertokensInit ex_init_pkg
     (ex_config ''http://localhost:3001'' ''https://try.supertokens.io'' []) None [] =
     (Returned (Some (ErrorString
        ''please provide at least one recipe to the supertokens.init function call'')),
      None, [''querier'']) \<and>
   supertokensInit ex_init_pkg
     (ex_config ''http://localhost:3001'' ''https://try.supertokens.io''
        [ex_factory (Some (ex_silent ''session'')) None,
         ex_factory None (Some (ErrorString ''bad recipe config''))]) None [] =
     (Returned (Some (ErrorString ''bad recipe config'')), None,
      [''querier'', ''factory'', ''factory'']) \<and>
   getInstanceOrThrowError (None :: string list superTokens option) =
     (None, Some (ErrorString
        ''initialisation not done. Did you forget to call the SuperTokens.init function?'')) \<and>
   supertokensInit ex_init_pkg
     (ex_config ''http://localhost:3001'' ''https://try.supertokens.io''
        [ex_factory (Some (ex_silent ''session'')) None]) None [] =
     (Returned None,
      Some \<lparr>AppInfo = ex_appInfo, RecipeModules = [ex_silent ''session''],
            OnGeneralError = defaultOnGeneralError ex_init_pkg\<rparr>,
      [''querier'', ''factory'']) \<and>
   RecipeList (ex_config ''http://localhost:3001'' ''https://try.supertokens.io''
        [ex_factory (Some (ex_silent ''session'')) None]) \<noteq> []"
proof -
  have splits: "strings_Split ''https://try.supertokens.io'' CHR '';'' = [''https://try.supertokens.io'']"
    "strings_Split ''https://try.supertokens.io;localhost'' CHR '';'' =
       [''https://try.supertokens.io'', ''localhost'']"
    by simp_all
  have e1: "supertokensInit ex_init_pkg (ex_config [] ''https://try.supertokens.io'' []) None [] =
     (Returned (Some (ErrorString ''please provide your apiDomain'')), None, [])"
    by (simp add: supertokensInit_def ex_init_pkg_def ex_config_def)
  have e2: "supertokensInit ex_init_pkg
     (ex_config ''http://localhost:3001'' ''https://try.supertokens.io;localhost''
        [ex_factory (Some (ex_silent ''session'')) None]) None [] =
     (Returned (Some (ErrorString ''please provide a valid domain name'')), None, [])"
    unfolding supertokensInit_def by (simp add: ex_init_pkg_def ex_config_def splits)
  have e3: "supertokensInit ex_init_pkg
     (ex_config ''http://localhost:3001'' ''https://try.supertokens.io'' []) None [] =
     (Returned (Some (ErrorString
        ''please provide at least one recipe to the supertokens.init function call'')),
      None, [''querier''])"
    unfolding supertokensInit_def by (simp add: ex_init_pkg_def ex_config_def splits)
  have e4: "supertokensInit ex_init_pkg
     (ex_config ''http://localhost:3001'' ''https://try.supertokens.io''
        [ex_factory (Some (ex_silent ''session'')) None,
         ex_factory None (Some (ErrorString ''bad recipe config''))]) None [] =
     (Returned (Some (ErrorString ''bad recipe config'')), None,
      [''querier'', ''factory'', ''factory''])"
    unfolding supertokensInit_def
    by (simp add: ex_init_pkg_def ex_config_def ex_factory_def splits)
  have ok: "supertokensInit ex_init_pkg
     (ex_config ''http://localhost:3001'' ''https://try.supertokens.io''
        [ex_factory (Some (ex_silent ''session'')) None]) None [] =
     (Returned None,
      Some \<lparr>AppInfo = ex_appInfo, RecipeModules = [ex_silent ''session''],
            OnGeneralError = defaultOnGeneralError ex_init_pkg\<rparr>,
      [''querier'', ''factory''])"
    unfolding supertokensInit_def
    by (simp add: ex_init_pkg_def ex_config_def ex_factory_def splits)
  note T = supertokensInit_error_keeps_instance_unset [where ip = ex_init_pkg and w = "[]"]
  from T [THEN conjunct1, rule_format, OF e1, THEN conjunct2, THEN conjunct1]
    T [THEN conjunct2, rule_format, OF ok, THEN conjunct2, THEN conjunct2, THEN conjunct2, THEN conjunct1]
    e1 e2 e3 e4 ok
  show ?thesis by simp
qed

end
